theory Spec2Isabelle
  imports Complex_Main
begin

section \<open>Strings and JSON values\<close>

text \<open>
  A Python \<open>str\<close> is a sequence of Unicode code points, so it is modelled as a list of
  code points. \<open>lit\<close> turns an ASCII literal of the source into such a string.
\<close>

type_synonym str = "nat list"

definition lit :: "string \<Rightarrow> str" where
  "lit s = map of_char s"

text \<open>
  The code points that Python's \<open>str.strip()\<close> (called without argument) removes:
  the ASCII white space including the separators U+001C..U+001F, and the Unicode
  white space U+0085, U+00A0, U+1680, U+2000..U+200A, U+2028, U+2029, U+202F, U+205F,
  U+3000.
\<close>

definition isspace :: "nat \<Rightarrow> bool" where
  "isspace c =
     ((9 \<le> c \<and> c \<le> 13) \<or> (28 \<le> c \<and> c \<le> 32) \<or> c = 133 \<or> c = 160 \<or> c = 5760 \<or>
      (8192 \<le> c \<and> c \<le> 8202) \<or> c = 8232 \<or> c = 8233 \<or> c = 8239 \<or> c = 8287 \<or>
      c = 12288)"

definition strip :: "str \<Rightarrow> str" where
  "strip s = rev (dropWhile isspace (rev (dropWhile isspace s)))"

text \<open>
  The values \<open>json.dumps\<close> accepts and \<open>json.loads\<close> returns (floating point numbers
  left out). An object keeps its keys in insertion order, as a Python \<open>dict\<close> does.
  The two library functions themselves are parameters of the model:
  \<open>dumps :: json \<Rightarrow> str\<close>, and \<open>loads :: str \<Rightarrow> json option\<close> where \<open>None\<close> stands for
  \<open>json.JSONDecodeError\<close>.
\<close>

datatype json =
    JNull
  | JBool bool
  | JInt int
  | JStr str
  | JArr "json list"
  | JObj "(str \<times> json) list"

section \<open>The provider-agnostic message model\<close>

text \<open>
  Modelled from the spec: the dataclasses \<open>ToolCall\<close>, \<open>ToolResult\<close>, \<open>LLMMessage\<close>,
  \<open>LLMUsage\<close> and \<open>LLMResponse\<close> that the client imports from \<open>tools.base\<close> and
  \<open>llm_basics\<close>, which are not among the sources. Their fields are those of the data
  model of the specification and those the client reads or sets. An optional field is
  an \<open>option\<close>; an instance of a dataclass is always truthy, so \<open>if msg.tool_call:\<close>
  tests for \<open>Some\<close>.
\<close>

record ToolCall =
  name :: str
  call_id :: str
  arguments :: json

record ToolResult =
  tr_call_id :: str
  tr_name :: str
  success :: bool
  result :: "str option"
  error :: "str option"

record LLMMessage =
  role :: str
  content :: "str option"
  tool_call :: "ToolCall option"
  tool_result :: "ToolResult option"

record LLMUsage =
  input_tokens :: int
  output_tokens :: int

record LLMResponse =
  r_content :: str
  r_tool_calls :: "ToolCall list option"
  r_finish_reason :: str
  r_model :: str
  r_usage :: "LLMUsage option"

text \<open>Truthiness of an optional string: \<open>None\<close> and the empty string are falsy.\<close>

fun truthy :: "str option \<Rightarrow> bool" where
  "truthy None = False"
| "truthy (Some s) = (s \<noteq> [])"

section \<open>Provider-native records\<close>

text \<open>
  The typed dictionaries of the OpenAI SDK that end up in the message history. Each
  constructor is one \<open>ChatCompletion...MessageParam\<close> class; its \<open>role\<close> key is fixed
  by the class and read back by \<open>role_of\<close>. An assistant record has its \<open>tool_calls\<close>
  key only when it was built with one.
\<close>

record Function =
  f_name :: str
  f_arguments :: str

record ChatCompletionMessageToolCallParam =
  tc_id :: str
  tc_function :: Function
  tc_type :: str

datatype ChatCompletionMessageParam =
    ChatCompletionFunctionMessageParam str str
  | ChatCompletionToolMessageParam str str
  | ChatCompletionSystemMessageParam str
  | ChatCompletionUserMessageParam str
  | ChatCompletionAssistantMessageParam str "ChatCompletionMessageToolCallParam list option"

fun role_of :: "ChatCompletionMessageParam \<Rightarrow> str" where
  "role_of (ChatCompletionFunctionMessageParam c n) = lit ''function''"
| "role_of (ChatCompletionToolMessageParam c i) = lit ''tool''"
| "role_of (ChatCompletionSystemMessageParam c) = lit ''system''"
| "role_of (ChatCompletionUserMessageParam c) = lit ''user''"
| "role_of (ChatCompletionAssistantMessageParam c tcs) = lit ''assistant''"

fun content_of :: "ChatCompletionMessageParam \<Rightarrow> str" where
  "content_of (ChatCompletionFunctionMessageParam c n) = c"
| "content_of (ChatCompletionToolMessageParam c i) = c"
| "content_of (ChatCompletionSystemMessageParam c) = c"
| "content_of (ChatCompletionUserMessageParam c) = c"
| "content_of (ChatCompletionAssistantMessageParam c tcs) = c"

section \<open>Errors\<close>

text \<open>
  Every exception of the source is a value. \<open>ValueError\<close> carries the message the source
  raises it with; \<open>IndexError\<close> is \<open>response.choices[0]\<close> on an empty list;
  \<open>JSONDecodeError\<close> is a failing \<open>json.loads\<close> on the provider's reply, kept apart from
  the errors of message validation; \<open>APIError\<close> is whatever the provider's SDK raised in
  the network call, kept opaque. The SDK's constructor raises errors of its own choice.
\<close>

datatype error =
    ValueError str
  | IndexError
  | JSONDecodeError
  | APIError str

section \<open>parse\_messages\<close>

text \<open>
  The body of the \<open>for\<close> loop of \<open>parse_messages\<close>: the record one message is
  translated to, or the error it raises.
\<close>

definition tool_result_content :: "ToolResult \<Rightarrow> str" where
  "tool_result_content tr =
     (let result0 = [];
          result1 = (if truthy (result tr) then result0 @ the (result tr) @ [10] else result0);
          result2 = (if truthy (error tr)
                     then (result1 @ lit ''Tool call failed with error:'' @ [10]) @ the (error tr)
                     else result1)
      in strip result2)"

definition parse_message :: "(json \<Rightarrow> str) \<Rightarrow> LLMMessage \<Rightarrow> error + ChatCompletionMessageParam" where
  "parse_message dumps msg =
     (case tool_call msg of
        Some tc \<Rightarrow>
          Inr (ChatCompletionFunctionMessageParam
                 (dumps (JObj [(lit ''name'', JStr (name tc)), (lit ''arguments'', arguments tc)]))
                 (name tc))
      | None \<Rightarrow>
     (case tool_result msg of
        Some tr \<Rightarrow> Inr (ChatCompletionToolMessageParam (tool_result_content tr) (tr_call_id tr))
      | None \<Rightarrow>
          if role msg = lit ''system'' then
            (if \<not> truthy (content msg)
             then Inl (ValueError (lit ''System message content is required''))
             else Inr (ChatCompletionSystemMessageParam (the (content msg))))
          else if role msg = lit ''user'' then
            (if \<not> truthy (content msg)
             then Inl (ValueError (lit ''User message content is required''))
             else Inr (ChatCompletionUserMessageParam (the (content msg))))
          else if role msg = lit ''assistant'' then
            (if \<not> truthy (content msg)
             then Inl (ValueError (lit ''Assistant message content is required''))
             else Inr (ChatCompletionAssistantMessageParam (the (content msg)) None))
          else Inl (ValueError (lit ''Invalid message role: '' @ role msg))))"

text \<open>
  The loop itself: \<open>acc\<close> is \<open>azure_messages\<close>, filled in the order of the input; the
  first message that raises ends the call.
\<close>

fun parse_messages_loop ::
  "(json \<Rightarrow> str) \<Rightarrow> ChatCompletionMessageParam list \<Rightarrow> LLMMessage list
     \<Rightarrow> error + ChatCompletionMessageParam list" where
  "parse_messages_loop dumps acc [] = Inr acc"
| "parse_messages_loop dumps acc (msg # msgs) =
     (case parse_message dumps msg of
        Inl e \<Rightarrow> Inl e
      | Inr r \<Rightarrow> parse_messages_loop dumps (acc @ [r]) msgs)"

definition parse_messages ::
  "(json \<Rightarrow> str) \<Rightarrow> LLMMessage list \<Rightarrow> error + ChatCompletionMessageParam list" where
  "parse_messages dumps messages = parse_messages_loop dumps [] messages"

section \<open>Configuration, SDK objects and the client\<close>

text \<open>
  Modelled from the spec: \<open>ModelParameters\<close> of \<open>config\<close>, which is not among the sources.
  It is the configuration bag passed to the constructor and to every \<open>chat\<close> call, with
  the fields the specification lists. \<open>max_retries\<close> is a count. The two sampling
  parameters are Python floats that the client only passes on.
\<close>

record ModelParameters =
  model :: str
  mp_api_key :: str
  max_tokens :: int
  temperature :: real
  top_p :: real
  top_k :: int
  parallel_tool_calls :: bool
  max_retries :: nat
  mp_base_url :: "str option"
  mp_api_version :: "str option"

text \<open>
  A tool as the tool registry supplies it: the values of its three getters. The
  schema records are typed dictionaries of the SDK.
\<close>

record Tool =
  get_name :: str
  get_description :: str
  get_input_schema :: json

record FunctionDefinition =
  fd_name :: str
  fd_description :: str
  fd_parameters :: json

record ChatCompletionToolParam =
  tp_function :: FunctionDefinition
  tp_type :: str

text \<open>
  The keyword arguments of one \<open>client.chat.completions.create\<close> call;
  \<open>q_tools = None\<close> is \<open>openai.NOT_GIVEN\<close>.
\<close>

record request =
  q_model :: str
  q_messages :: "ChatCompletionMessageParam list"
  q_tools :: "ChatCompletionToolParam list option"
  q_temperature :: real
  q_top_p :: real
  q_max_tokens :: int
  q_n :: nat

text \<open>The parts of the SDK's \<open>ChatCompletion\<close> that \<open>chat\<close> reads.\<close>

record ChatCompletionMessageToolCall =
  mtc_id :: str
  mtc_function :: Function

record ChatCompletionMessage =
  m_content :: "str option"
  m_tool_calls :: "ChatCompletionMessageToolCall list option"

record Choice =
  message :: ChatCompletionMessage
  finish_reason :: str

record CompletionUsage =
  prompt_tokens :: "int option"
  completion_tokens :: "int option"

record ChatCompletion =
  choices :: "Choice list"
  c_model :: str
  usage :: "CompletionUsage option"

text \<open>
  The SDK's client object is represented by the connection fields it holds. What the
  trajectory recorder is told is kept as the list of its records.
\<close>

record AzureOpenAI =
  azure_endpoint :: str
  sdk_api_version :: "str option"
  sdk_api_key :: str

record interaction =
  i_messages :: "LLMMessage list"
  i_response :: LLMResponse
  i_provider :: str
  i_model :: str
  i_tools :: "Tool list option"

text \<open>
  The client object. \<open>api_key\<close>, \<open>base_url\<close>, \<open>api_version\<close> and \<open>trajectory_recorder\<close>
  are the attributes of the base class, \<open>client\<close> and \<open>message_history\<close> those of
  \<open>AzureClient\<close>. \<open>sent\<close> is not an attribute: it is the trace of the requests issued
  through \<open>self.client\<close> so far, oldest first, so that network use is observable.
\<close>

record AzureClient =
  api_key :: str
  base_url :: "str option"
  api_version :: "str option"
  client :: AzureOpenAI
  message_history :: "ChatCompletionMessageParam list"
  trajectory_recorder :: "interaction list option"
  sent :: "request list"

section \<open>The constructor and set\_chat\_history\<close>

text \<open>
  \<open>AzureClient.__init__\<close>. The constructor of the base class, which is not among the
  sources, is taken from the specification: it stores the connection fields of the
  configuration verbatim in the object; no trajectory recorder is attached yet.
  The parameter \<open>azure_openai\<close> is the SDK's constructor \<open>openai.AzureOpenAI\<close>, called
  with the endpoint, the API version and the API key: it returns the client object or
  raises, as it does when it finds neither an API version nor credentials in its
  arguments and in the process environment. It is called only after the check of the
  base URL, and the history is initialised only after it has returned.
\<close>

definition init ::
  "(str \<Rightarrow> str option \<Rightarrow> str \<Rightarrow> error + AzureOpenAI) \<Rightarrow> ModelParameters
     \<Rightarrow> error + AzureClient" where
  "init azure_openai model_parameters =
     (if \<not> truthy (mp_base_url model_parameters)
      then Inl (ValueError (lit ''base_url is required for AzureClient''))
      else (case azure_openai (the (mp_base_url model_parameters))
                   (mp_api_version model_parameters) (mp_api_key model_parameters) of
              Inl e \<Rightarrow> Inl e
            | Inr c \<Rightarrow>
                Inr \<lparr> api_key = mp_api_key model_parameters,
                      base_url = mp_base_url model_parameters,
                      api_version = mp_api_version model_parameters,
                      client = c,
                      message_history = [],
                      trajectory_recorder = None,
                      sent = [] \<rparr>))"

definition set_chat_history ::
  "(json \<Rightarrow> str) \<Rightarrow> AzureClient \<Rightarrow> LLMMessage list \<Rightarrow> (error + unit) \<times> AzureClient" where
  "set_chat_history dumps self messages =
     (case parse_messages dumps messages of
        Inl e \<Rightarrow> (Inl e, self)
      | Inr azure_messages \<Rightarrow> (Inr (), self\<lparr>message_history := azure_messages\<rparr>))"

definition supports_tool_calling :: "AzureClient \<Rightarrow> ModelParameters \<Rightarrow> bool \<times> AzureClient" where
  "supports_tool_calling self model_parameters = (True, self)"

section \<open>The network call and the retry wrapper\<close>

text \<open>
  \<open>_create_azure_response\<close>. The parameter \<open>create\<close> is the provider behind
  \<open>self.client.chat.completions.create\<close>: given the number of requests made before and
  the request, it answers with a completion or fails with an exception of the SDK.
\<close>

definition create_azure_response ::
  "(nat \<Rightarrow> request \<Rightarrow> str + ChatCompletion) \<Rightarrow> ModelParameters
     \<Rightarrow> ChatCompletionToolParam list option \<Rightarrow> AzureClient
     \<Rightarrow> (error + ChatCompletion) \<times> AzureClient" where
  "create_azure_response create model_parameters tool_schemas self =
     (let req = \<lparr> q_model = model model_parameters,
                  q_messages = message_history self,
                  q_tools = (case tool_schemas of
                               None \<Rightarrow> None
                             | Some ts \<Rightarrow> if ts \<noteq> [] then Some ts else None),
                  q_temperature = temperature model_parameters,
                  q_top_p = top_p model_parameters,
                  q_max_tokens = max_tokens model_parameters,
                  q_n = 1 \<rparr>
      in (case create (length (sent self)) req of
            Inl x \<Rightarrow> Inl (APIError x)
          | Inr response \<Rightarrow> Inr response,
          self\<lparr>sent := sent self @ [req]\<rparr>))"

text \<open>
  Modelled from the spec: \<open>retry_with\<close> of \<open>retry_utils\<close>, which is not among the
  sources. Given a fallible call, a service label and a maximum retry count, it
  re-invokes the call on failure up to that count, then reports the last failure. The
  label is for diagnostics only; the delay between attempts is not modelled.
\<close>

fun retry_with ::
  "('s \<Rightarrow> (error + 'a) \<times> 's) \<Rightarrow> str \<Rightarrow> nat \<Rightarrow> 's \<Rightarrow> (error + 'a) \<times> 's" where
  "retry_with func service_name 0 s = func s"
| "retry_with func service_name (Suc n) s =
     (case func s of
        (Inr v, s') \<Rightarrow> (Inr v, s')
      | (Inl e, s') \<Rightarrow> retry_with func service_name n s')"

section \<open>chat\<close>

text \<open>
  The loop that turns the provider's tool calls into \<open>ToolCall\<close>s: the arguments are
  decoded with \<open>json.loads\<close>, an empty argument string gives the empty dictionary.
\<close>

fun tool_calls_loop ::
  "(str \<Rightarrow> json option) \<Rightarrow> ToolCall list \<Rightarrow> ChatCompletionMessageToolCall list
     \<Rightarrow> error + ToolCall list" where
  "tool_calls_loop loads acc [] = Inr acc"
| "tool_calls_loop loads acc (tc # rest) =
     (case (if f_arguments (mtc_function tc) \<noteq> []
            then loads (f_arguments (mtc_function tc))
            else Some (JObj [])) of
        None \<Rightarrow> Inl JSONDecodeError
      | Some args \<Rightarrow>
          tool_calls_loop loads
            (acc @ [\<lparr> name = f_name (mtc_function tc),
                      call_id = mtc_id tc,
                      arguments = args \<rparr>])
            rest)"

text \<open>Lines 108 to 135 of \<open>chat\<close>: the first choice and the \<open>LLMResponse\<close> built from it.\<close>

definition build_llm_response ::
  "(str \<Rightarrow> json option) \<Rightarrow> ChatCompletion \<Rightarrow> error + LLMResponse" where
  "build_llm_response loads response =
     (case choices response of
        [] \<Rightarrow> Inl IndexError
      | choice # _ \<Rightarrow>
          (case (case m_tool_calls (message choice) of
                   None \<Rightarrow> Inr None
                 | Some tcs \<Rightarrow>
                     if tcs = [] then Inr None
                     else map_sum id Some (tool_calls_loop loads [] tcs)) of
             Inl e \<Rightarrow> Inl e
           | Inr tool_calls \<Rightarrow>
               Inr \<lparr> r_content = (if truthy (m_content (message choice))
                                   then the (m_content (message choice)) else []),
                     r_tool_calls = tool_calls,
                     r_finish_reason = finish_reason choice,
                     r_model = c_model response,
                     r_usage = (case usage response of
                                  None \<Rightarrow> None
                                | Some u \<Rightarrow>
                                    Some \<lparr> input_tokens = (case prompt_tokens u of
                                                              None \<Rightarrow> 0 | Some n \<Rightarrow> n),
                                           output_tokens = (case completion_tokens u of
                                                              None \<Rightarrow> 0 | Some n \<Rightarrow> n) \<rparr>) \<rparr>))"

text \<open>Lines 137 to 159: the assistant turn appended to the history.\<close>

definition tool_call_param :: "(json \<Rightarrow> str) \<Rightarrow> ToolCall \<Rightarrow> ChatCompletionMessageToolCallParam" where
  "tool_call_param dumps tc =
     \<lparr> tc_id = call_id tc,
       tc_function = \<lparr> f_name = name tc, f_arguments = dumps (arguments tc) \<rparr>,
       tc_type = lit ''function'' \<rparr>"

definition update_message_history ::
  "(json \<Rightarrow> str) \<Rightarrow> LLMResponse \<Rightarrow> ChatCompletionMessageParam list
     \<Rightarrow> ChatCompletionMessageParam list" where
  "update_message_history dumps llm_response history =
     (case r_tool_calls llm_response of
        Some (tc # tcs) \<Rightarrow>
          history @ [ChatCompletionAssistantMessageParam (r_content llm_response)
                       (Some (map (tool_call_param dumps) (tc # tcs)))]
      | _ \<Rightarrow>
          if r_content llm_response \<noteq> []
          then history @ [ChatCompletionAssistantMessageParam (r_content llm_response) None]
          else history)"

definition tool_schema :: "Tool \<Rightarrow> ChatCompletionToolParam" where
  "tool_schema tool =
     \<lparr> tp_function = \<lparr> fd_name = get_name tool,
                        fd_description = get_description tool,
                        fd_parameters = get_input_schema tool \<rparr>,
       tp_type = lit ''function'' \<rparr>"

definition chat ::
  "(json \<Rightarrow> str) \<Rightarrow> (str \<Rightarrow> json option) \<Rightarrow> (nat \<Rightarrow> request \<Rightarrow> str + ChatCompletion)
     \<Rightarrow> AzureClient \<Rightarrow> LLMMessage list \<Rightarrow> ModelParameters \<Rightarrow> Tool list option \<Rightarrow> bool
     \<Rightarrow> (error + LLMResponse) \<times> AzureClient" where
  "chat dumps loads create self messages model_parameters tools reuse_history =
     (case parse_messages dumps messages of
        Inl e \<Rightarrow> (Inl e, self)
      | Inr azure_messages \<Rightarrow>
          (let self1 = self\<lparr>message_history :=
                         (if reuse_history then message_history self @ azure_messages
                          else azure_messages)\<rparr>;
               tool_schemas = (case tools of
                                 None \<Rightarrow> None
                               | Some ts \<Rightarrow> if ts \<noteq> [] then Some (map tool_schema ts) else None)
           in (case retry_with (create_azure_response create model_parameters tool_schemas)
                       (lit ''Azure OpenAI'') (max_retries model_parameters) self1 of
                 (Inl e, self2) \<Rightarrow> (Inl e, self2)
               | (Inr response, self2) \<Rightarrow>
                   (case build_llm_response loads response of
                      Inl e \<Rightarrow> (Inl e, self2)
                    | Inr llm_response \<Rightarrow>
                        (let self3 = self2\<lparr>message_history :=
                                        update_message_history dumps llm_response
                                          (message_history self2)\<rparr>;
                             self4 = (case trajectory_recorder self3 of
                                        None \<Rightarrow> self3
                                      | Some recorded \<Rightarrow>
                                          self3\<lparr>trajectory_recorder := Some (recorded @
                                            [\<lparr> i_messages = messages,
                                               i_response = llm_response,
                                               i_provider = lit ''azure'',
                                               i_model = model model_parameters,
                                               i_tools = tools \<rparr>])\<rparr>)
                         in (Inr llm_response, self4))))))"

section \<open>Notions used to state the properties\<close>

text \<open>The three roles \<open>parse_messages\<close> recognises.\<close>

definition known_role :: "str \<Rightarrow> bool" where
  "known_role r = (r = lit ''system'' \<or> r = lit ''user'' \<or> r = lit ''assistant'')"

text \<open>
  A message that fails validation: it carries neither a tool call nor a tool result, and
  either has one of the three roles with empty or missing content, or has another role.
\<close>

definition invalid_message :: "LLMMessage \<Rightarrow> bool" where
  "invalid_message m =
     (tool_call m = None \<and> tool_result m = None \<and>
      ((known_role (role m) \<and> \<not> truthy (content m)) \<or> \<not> known_role (role m)))"

text \<open>The error \<open>parse_messages\<close> raises at an invalid message.\<close>

definition validation_error :: "LLMMessage \<Rightarrow> error" where
  "validation_error m =
     ValueError
       (if role m = lit ''system'' then lit ''System message content is required''
        else if role m = lit ''user'' then lit ''User message content is required''
        else if role m = lit ''assistant'' then lit ''Assistant message content is required''
        else lit ''Invalid message role: '' @ role m)"

text \<open>The request \<open>_create_azure_response\<close> builds from the client's state.\<close>

definition request_of ::
  "ModelParameters \<Rightarrow> ChatCompletionToolParam list option \<Rightarrow> AzureClient \<Rightarrow> request" where
  "request_of model_parameters tool_schemas self =
     \<lparr> q_model = model model_parameters,
       q_messages = message_history self,
       q_tools = (case tool_schemas of
                    None \<Rightarrow> None
                  | Some ts \<Rightarrow> if ts \<noteq> [] then Some ts else None),
       q_temperature = temperature model_parameters,
       q_top_p = top_p model_parameters,
       q_max_tokens = max_tokens model_parameters,
       q_n = 1 \<rparr>"

text \<open>The schemas \<open>chat\<close> builds for the tools it is given.\<close>

definition schemas_of :: "Tool list option \<Rightarrow> ChatCompletionToolParam list option" where
  "schemas_of tools =
     (case tools of
        None \<Rightarrow> None
      | Some ts \<Rightarrow> if ts \<noteq> [] then Some (map tool_schema ts) else None)"

text \<open>The history \<open>chat\<close> sends: the stored one extended, or replaced, by the new records.\<close>

definition history_with ::
  "bool \<Rightarrow> AzureClient \<Rightarrow> ChatCompletionMessageParam list \<Rightarrow> ChatCompletionMessageParam list" where
  "history_with reuse_history self azure_messages =
     (if reuse_history then message_history self @ azure_messages else azure_messages)"

text \<open>
  The tool-call arguments of a choice decode: every argument string that is not empty
  is accepted by \<open>json.loads\<close>. A choice whose list of tool calls is absent or empty has
  nothing to decode.
\<close>

definition decodable :: "(str \<Rightarrow> json option) \<Rightarrow> Choice \<Rightarrow> bool" where
  "decodable loads ch =
     (case m_tool_calls (message ch) of
        None \<Rightarrow> True
      | Some tcs \<Rightarrow>
          list_all (\<lambda>tc. f_arguments (mtc_function tc) = [] \<or>
                         loads (f_arguments (mtc_function tc)) \<noteq> None) tcs)"

text \<open>
  The content of a tool-role record as the specification words it: the result text with
  the failure line and the error text appended when an error is present, trimmed.
\<close>

definition claimed_tool_result_content :: "ToolResult \<Rightarrow> str" where
  "claimed_tool_result_content tr =
     strip ((case result tr of None \<Rightarrow> [] | Some t \<Rightarrow> t) @
            (case error tr of
               None \<Rightarrow> []
             | Some e \<Rightarrow> lit ''Tool call failed with error:'' @ [10] @ e))"

section \<open>Sample inputs\<close>

text \<open>
  Concrete inputs on which the model is run: stand-ins for the two JSON functions that
  know the empty object only, a configuration, a client with one stored record, some
  messages, three provider replies and the providers that give them.
\<close>

definition sample_dumps :: "json \<Rightarrow> str" where
  "sample_dumps j = (if j = JObj [] then lit ''{}'' else lit ''{...}'')"

definition sample_loads :: "str \<Rightarrow> json option" where
  "sample_loads s = (if s = lit ''{}'' then Some (JObj []) else None)"

definition sample_parameters :: ModelParameters where
  "sample_parameters =
     \<lparr> model = lit ''gpt'', mp_api_key = lit ''key'', max_tokens = 100, temperature = 0,
       top_p = 1, top_k = 0, parallel_tool_calls = False, max_retries = 2,
       mp_base_url = Some (lit ''https://x''), mp_api_version = None \<rparr>"

definition sample_client :: AzureClient where
  "sample_client =
     \<lparr> api_key = lit ''key'', base_url = Some (lit ''https://x''), api_version = None,
       client = \<lparr> azure_endpoint = lit ''https://x'', sdk_api_version = None,
                  sdk_api_key = lit ''key'' \<rparr>,
       message_history = [ChatCompletionSystemMessageParam (lit ''brief'')],
       trajectory_recorder = None,
       sent = [] \<rparr>"

definition user_hello :: LLMMessage where
  "user_hello = \<lparr> role = lit ''user'', content = Some (lit ''hello''),
                  tool_call = None, tool_result = None \<rparr>"

definition empty_system :: LLMMessage where
  "empty_system = \<lparr> role = lit ''system'', content = Some [],
                    tool_call = None, tool_result = None \<rparr>"

definition sample_call :: ToolCall where
  "sample_call = \<lparr> name = lit ''bash'', call_id = lit ''c1'', arguments = JObj [] \<rparr>"

definition failed_result :: ToolResult where
  "failed_result = \<lparr> tr_call_id = lit ''c1'', tr_name = lit ''bash'', success = False,
                     result = Some (lit ''a''), error = Some (lit ''b'') \<rparr>"

definition failed_result_message :: LLMMessage where
  "failed_result_message = \<lparr> role = lit ''user'', content = None,
                             tool_call = None, tool_result = Some failed_result \<rparr>"

definition call_message :: LLMMessage where
  "call_message = \<lparr> role = lit ''nobody'', content = None,
                    tool_call = Some sample_call, tool_result = Some failed_result \<rparr>"

definition text_reply :: ChatCompletion where
  "text_reply =
     \<lparr> choices = [\<lparr> message = \<lparr> m_content = Some (lit ''hi''), m_tool_calls = None \<rparr>,
                    finish_reason = lit ''stop'' \<rparr>],
       c_model = lit ''gpt-1'',
       usage = Some \<lparr> prompt_tokens = Some 3, completion_tokens = None \<rparr> \<rparr>"

definition silent_reply :: ChatCompletion where
  "silent_reply =
     \<lparr> choices = [\<lparr> message = \<lparr> m_content = None, m_tool_calls = None \<rparr>,
                    finish_reason = lit ''stop'' \<rparr>],
       c_model = lit ''gpt-1'',
       usage = None \<rparr>"

definition tool_reply :: ChatCompletion where
  "tool_reply =
     \<lparr> choices = [\<lparr> message =
                      \<lparr> m_content = None,
                        m_tool_calls = Some [\<lparr> mtc_id = lit ''c1'',
                                               mtc_function = \<lparr> f_name = lit ''bash'',
                                                                f_arguments = lit ''{}'' \<rparr> \<rparr>] \<rparr>,
                    finish_reason = lit ''tool_calls'' \<rparr>],
       c_model = lit ''gpt-1'',
       usage = None \<rparr>"

definition provider_text :: "nat \<Rightarrow> request \<Rightarrow> str + ChatCompletion" where
  "provider_text n req = Inr text_reply"

definition provider_silent :: "nat \<Rightarrow> request \<Rightarrow> str + ChatCompletion" where
  "provider_silent n req = Inr silent_reply"

definition provider_tool :: "nat \<Rightarrow> request \<Rightarrow> str + ChatCompletion" where
  "provider_tool n req = Inr tool_reply"

text \<open>A provider that is busy for the first two requests, and one that is always down.\<close>

definition provider_flaky :: "nat \<Rightarrow> request \<Rightarrow> str + ChatCompletion" where
  "provider_flaky n req = (if n < 2 then Inl (lit ''busy'') else Inr text_reply)"

definition provider_down :: "nat \<Rightarrow> request \<Rightarrow> str + ChatCompletion" where
  "provider_down n req = Inl (lit ''down'' @ [48 + n])"

text \<open>
  A reply whose tool call has the argument string \<open>{\<close>, which is not JSON, and a reply
  without choices; the providers that give them.
\<close>

definition badjson_reply :: ChatCompletion where
  "badjson_reply =
     \<lparr> choices = [\<lparr> message =
                      \<lparr> m_content = None,
                        m_tool_calls = Some [\<lparr> mtc_id = lit ''c1'',
                                               mtc_function = \<lparr> f_name = lit ''bash'',
                                                                f_arguments = lit ''{'' \<rparr> \<rparr>] \<rparr>,
                    finish_reason = lit ''tool_calls'' \<rparr>],
       c_model = lit ''gpt-1'',
       usage = None \<rparr>"

definition provider_badjson :: "nat \<Rightarrow> request \<Rightarrow> str + ChatCompletion" where
  "provider_badjson n req = Inr badjson_reply"

definition provider_nochoice :: "nat \<Rightarrow> request \<Rightarrow> str + ChatCompletion" where
  "provider_nochoice n req = Inr \<lparr> choices = [], c_model = lit ''gpt-1'', usage = None \<rparr>"

text \<open>
  Two stand-ins for the SDK's constructor: one for an environment that supplies what the
  arguments lack, and one for an environment without \<open>OPENAI_API_VERSION\<close>, where a
  missing API version is an error.
\<close>

definition sdk_lenient :: "str \<Rightarrow> str option \<Rightarrow> str \<Rightarrow> error + AzureOpenAI" where
  "sdk_lenient endpoint version key =
     Inr \<lparr> azure_endpoint = endpoint, sdk_api_version = version, sdk_api_key = key \<rparr>"

definition sdk_strict :: "str \<Rightarrow> str option \<Rightarrow> str \<Rightarrow> error + AzureOpenAI" where
  "sdk_strict endpoint version key =
     (case version of
        None \<Rightarrow> Inl (ValueError (lit ''Must provide the api_version argument''))
      | Some v \<Rightarrow>
          Inr \<lparr> azure_endpoint = endpoint, sdk_api_version = version, sdk_api_key = key \<rparr>)"

text \<open>The request for a given history, and the responses built from the three replies.\<close>

definition hello_request :: "ChatCompletionMessageParam list \<Rightarrow> request" where
  "hello_request ms =
     \<lparr> q_model = lit ''gpt'', q_messages = ms, q_tools = None, q_temperature = 0,
       q_top_p = 1, q_max_tokens = 100, q_n = 1 \<rparr>"

definition text_response :: LLMResponse where
  "text_response =
     \<lparr> r_content = lit ''hi'', r_tool_calls = None, r_finish_reason = lit ''stop'',
       r_model = lit ''gpt-1'',
       r_usage = Some \<lparr> input_tokens = 3, output_tokens = 0 \<rparr> \<rparr>"

definition silent_response :: LLMResponse where
  "silent_response =
     \<lparr> r_content = [], r_tool_calls = None, r_finish_reason = lit ''stop'',
       r_model = lit ''gpt-1'', r_usage = None \<rparr>"

definition tool_response :: LLMResponse where
  "tool_response =
     \<lparr> r_content = [], r_tool_calls = Some [sample_call],
       r_finish_reason = lit ''tool_calls'', r_model = lit ''gpt-1'', r_usage = None \<rparr>"

definition sample_call_param :: ChatCompletionMessageToolCallParam where
  "sample_call_param =
     \<lparr> tc_id = lit ''c1'',
       tc_function = \<lparr> f_name = lit ''bash'', f_arguments = lit ''{}'' \<rparr>,
       tc_type = lit ''function'' \<rparr>"

section \<open>Lemmas on the translation of messages\<close>

lemma parse_messages_loop_acc:
  "parse_messages_loop dumps acc ms =
     (case parse_messages_loop dumps [] ms of Inl e \<Rightarrow> Inl e | Inr rs \<Rightarrow> Inr (acc @ rs))"
proof (induction ms arbitrary: acc)
  case Nil
  show ?case by simp
next
  case (Cons m ms)
  show ?case
  proof (cases "parse_message dumps m")
    case (Inl e)
    then show ?thesis by simp
  next
    case (Inr r)
    have "parse_messages_loop dumps (acc @ [r]) ms =
            (case parse_messages_loop dumps [] ms of Inl e \<Rightarrow> Inl e | Inr rs \<Rightarrow> Inr ((acc @ [r]) @ rs))"
      by (rule Cons.IH)
    moreover have "parse_messages_loop dumps ([] @ [r]) ms =
            (case parse_messages_loop dumps [] ms of Inl e \<Rightarrow> Inl e | Inr rs \<Rightarrow> Inr (([] @ [r]) @ rs))"
      by (rule Cons.IH)
    ultimately show ?thesis using Inr by (simp split: sum.splits)
  qed
qed

lemma parse_messages_Nil: "parse_messages dumps [] = Inr []"
  by (simp add: parse_messages_def)

lemma parse_messages_Cons:
  "parse_messages dumps (m # ms) =
     (case parse_message dumps m of
        Inl e \<Rightarrow> Inl e
      | Inr r \<Rightarrow> (case parse_messages dumps ms of Inl e \<Rightarrow> Inl e | Inr rs \<Rightarrow> Inr (r # rs)))"
proof (cases "parse_message dumps m")
  case (Inl e)
  then show ?thesis by (simp add: parse_messages_def)
next
  case (Inr r)
  then show ?thesis
    using parse_messages_loop_acc [of dumps "[r]" ms]
    by (simp add: parse_messages_def split: sum.splits)
qed

lemma parse_messages_Inr_iff:
  "parse_messages dumps ms = Inr rs \<longleftrightarrow> list_all2 (\<lambda>m r. parse_message dumps m = Inr r) ms rs"
proof (induction ms arbitrary: rs)
  case Nil
  show ?case by (auto simp: parse_messages_Nil)
next
  case (Cons m ms)
  show ?case
  proof (cases rs)
    case Nil
    then show ?thesis by (simp add: parse_messages_Cons split: sum.splits)
  next
    case (Cons r rs')
    have "parse_messages dumps ms = Inr rs' \<longleftrightarrow>
            list_all2 (\<lambda>m r. parse_message dumps m = Inr r) ms rs'"
      by (rule Cons.IH)
    then show ?thesis using Cons
      by (auto simp: parse_messages_Cons split: sum.splits)
  qed
qed

section \<open>Lemmas on the network call and on chat\<close>

lemma create_azure_response_eq:
  "create_azure_response create mp ts s =
     (case create (length (sent s)) (request_of mp ts s) of
        Inl x \<Rightarrow> Inl (APIError x) | Inr c \<Rightarrow> Inr c,
      s\<lparr>sent := sent s @ [request_of mp ts s]\<rparr>)"
  by (simp add: create_azure_response_def request_of_def Let_def)

lemma request_of_sent [simp]:
  "request_of mp ts (s\<lparr>sent := x\<rparr>) = request_of mp ts s"
  by (simp add: request_of_def)

lemma retry_create:
  "\<exists>k. 1 \<le> k \<and> k \<le> Suc n \<and>
       snd (retry_with (create_azure_response create mp ts) l n s) =
         s\<lparr>sent := sent s @ replicate k (request_of mp ts s)\<rparr> \<and>
       fst (retry_with (create_azure_response create mp ts) l n s) =
         (case create (length (sent s) + k - 1) (request_of mp ts s) of
            Inl x \<Rightarrow> Inl (APIError x) | Inr c \<Rightarrow> Inr c) \<and>
       (\<forall>j<k - 1. isl (create (length (sent s) + j) (request_of mp ts s))) \<and>
       (isl (create (length (sent s) + k - 1) (request_of mp ts s)) \<longrightarrow> k = Suc n)"
proof (induction n arbitrary: s)
  case 0
  show ?case
    by (rule exI [of _ 1]) (simp add: create_azure_response_eq)
next
  case (Suc n)
  let ?req = "request_of mp ts s"
  let ?s1 = "s\<lparr>sent := sent s @ [?req]\<rparr>"
  show ?case
  proof (cases "create (length (sent s)) ?req")
    case (Inr c)
    show ?thesis
      by (rule exI [of _ 1]) (simp add: create_azure_response_eq Inr)
  next
    case (Inl x)
    from Suc.IH [of ?s1] obtain k where k: "1 \<le> k" "k \<le> Suc n"
      and snd_eq: "snd (retry_with (create_azure_response create mp ts) l n ?s1) =
         ?s1\<lparr>sent := sent ?s1 @ replicate k (request_of mp ts ?s1)\<rparr>"
      and fst_eq: "fst (retry_with (create_azure_response create mp ts) l n ?s1) =
         (case create (length (sent ?s1) + k - 1) (request_of mp ts ?s1) of
            Inl x \<Rightarrow> Inl (APIError x) | Inr c \<Rightarrow> Inr c)"
      and before: "\<forall>j<k - 1. isl (create (length (sent ?s1) + j) (request_of mp ts ?s1))"
      and last: "isl (create (length (sent ?s1) + k - 1) (request_of mp ts ?s1)) \<longrightarrow> k = Suc n"
      by blast
    have step: "retry_with (create_azure_response create mp ts) l (Suc n) s =
                  retry_with (create_azure_response create mp ts) l n ?s1"
      by (simp add: create_azure_response_eq Inl)
    have idx: "length (sent s) + Suc k - 1 = length (sent ?s1) + k - 1"
      using k by simp
    have before': "\<forall>j<Suc k - 1. isl (create (length (sent s) + j) ?req)"
    proof (intro allI impI)
      fix j assume j: "j < Suc k - 1"
      show "isl (create (length (sent s) + j) ?req)"
      proof (cases j)
        case 0
        then show ?thesis using Inl by simp
      next
        case (Suc i)
        with j have "i < k - 1" by simp
        with before have "isl (create (length (sent ?s1) + i) (request_of mp ts ?s1))" by blast
        then show ?thesis using Suc by simp
      qed
    qed
    show ?thesis
    proof (intro exI [of _ "Suc k"] conjI)
      show "1 \<le> Suc k" by simp
      show "Suc k \<le> Suc (Suc n)" using k by simp
      show "snd (retry_with (create_azure_response create mp ts) l (Suc n) s) =
              s\<lparr>sent := sent s @ replicate (Suc k) ?req\<rparr>"
        unfolding step snd_eq by simp
      show "fst (retry_with (create_azure_response create mp ts) l (Suc n) s) =
              (case create (length (sent s) + Suc k - 1) ?req of
                 Inl x \<Rightarrow> Inl (APIError x) | Inr c \<Rightarrow> Inr c)"
        unfolding step fst_eq idx by simp
      show "\<forall>j<Suc k - 1. isl (create (length (sent s) + j) ?req)" by (rule before')
      show "isl (create (length (sent s) + Suc k - 1) ?req) \<longrightarrow> Suc k = Suc (Suc n)"
        using last unfolding idx by simp
    qed
  qed
qed


lemma chat_invalid:
  "parse_messages dumps messages = Inl e \<Longrightarrow>
     chat dumps loads create self messages mp tools reuse = (Inl e, self)"
  by (simp add: chat_def)

lemma chat_valid:
  assumes "parse_messages dumps messages = Inr pm"
  shows "\<exists>k req. 1 \<le> k \<and> k \<le> Suc (max_retries mp) \<and>
     req = request_of mp (schemas_of tools) (self\<lparr>message_history := history_with reuse self pm\<rparr>) \<and>
     (\<forall>j<k - 1. isl (create (length (sent self) + j) req)) \<and>
     (isl (create (length (sent self) + k - 1) req) \<longrightarrow> k = Suc (max_retries mp)) \<and>
     chat dumps loads create self messages mp tools reuse =
       (case create (length (sent self) + k - 1) req of
          Inl x \<Rightarrow>
            (Inl (APIError x),
             self\<lparr>message_history := history_with reuse self pm,
                  sent := sent self @ replicate k req\<rparr>)
        | Inr c \<Rightarrow>
            (case build_llm_response loads c of
               Inl e \<Rightarrow>
                 (Inl e,
                  self\<lparr>message_history := history_with reuse self pm,
                       sent := sent self @ replicate k req\<rparr>)
             | Inr r \<Rightarrow>
                 (Inr r,
                  self\<lparr>message_history :=
                         update_message_history dumps r (history_with reuse self pm),
                       sent := sent self @ replicate k req,
                       trajectory_recorder :=
                         (case trajectory_recorder self of
                            None \<Rightarrow> None
                          | Some recorded \<Rightarrow>
                              Some (recorded @
                                [\<lparr> i_messages = messages, i_response = r,
                                   i_provider = lit ''azure'', i_model = model mp,
                                   i_tools = tools \<rparr>]))\<rparr>)))"
proof -
  let ?s1 = "self\<lparr>message_history := history_with reuse self pm\<rparr>"
  let ?req = "request_of mp (schemas_of tools) ?s1"
  let ?R = "retry_with (create_azure_response create mp (schemas_of tools))
              (lit ''Azure OpenAI'') (max_retries mp) ?s1"
  from retry_create [of "max_retries mp" create mp "schemas_of tools" "lit ''Azure OpenAI''" ?s1]
  obtain k where k: "1 \<le> k" "k \<le> Suc (max_retries mp)"
    and snd_eq: "snd ?R = ?s1\<lparr>sent := sent ?s1 @ replicate k ?req\<rparr>"
    and fst_eq: "fst ?R = (case create (length (sent ?s1) + k - 1) ?req of
                             Inl x \<Rightarrow> Inl (APIError x) | Inr c \<Rightarrow> Inr c)"
    and before: "\<forall>j<k - 1. isl (create (length (sent ?s1) + j) ?req)"
    and last: "isl (create (length (sent ?s1) + k - 1) ?req) \<longrightarrow> k = Suc (max_retries mp)"
    by blast
  have R: "?R = (fst ?R, snd ?R)" by simp
  have chat_eq: "chat dumps loads create self messages mp tools reuse =
      (case ?R of
         (Inl e, self2) \<Rightarrow> (Inl e, self2)
       | (Inr response, self2) \<Rightarrow>
           (case build_llm_response loads response of
              Inl e \<Rightarrow> (Inl e, self2)
            | Inr llm_response \<Rightarrow>
                (Inr llm_response,
                 (case trajectory_recorder self2 of
                    None \<Rightarrow> self2\<lparr>message_history :=
                               update_message_history dumps llm_response (message_history self2)\<rparr>
                  | Some recorded \<Rightarrow>
                      self2\<lparr>message_history :=
                               update_message_history dumps llm_response (message_history self2),
                            trajectory_recorder := Some (recorded @
                               [\<lparr> i_messages = messages, i_response = llm_response,
                                  i_provider = lit ''azure'', i_model = model mp,
                                  i_tools = tools \<rparr>])\<rparr>))))"
    using assms
    by (simp add: chat_def schemas_of_def history_with_def Let_def
          split: prod.splits sum.splits option.splits)
  show ?thesis
  proof (intro exI [of _ k] exI [of _ ?req] conjI)
    show "1 \<le> k" "k \<le> Suc (max_retries mp)" using k by simp_all
    show "?req = ?req" by simp
    show "\<forall>j<k - 1. isl (create (length (sent self) + j) ?req)" using before by simp
    show "isl (create (length (sent self) + k - 1) ?req) \<longrightarrow> k = Suc (max_retries mp)"
      using last by simp
    show "chat dumps loads create self messages mp tools reuse =
       (case create (length (sent self) + k - 1) ?req of
          Inl x \<Rightarrow>
            (Inl (APIError x),
             self\<lparr>message_history := history_with reuse self pm,
                  sent := sent self @ replicate k ?req\<rparr>)
        | Inr c \<Rightarrow>
            (case build_llm_response loads c of
               Inl e \<Rightarrow>
                 (Inl e,
                  self\<lparr>message_history := history_with reuse self pm,
                       sent := sent self @ replicate k ?req\<rparr>)
             | Inr r \<Rightarrow>
                 (Inr r,
                  self\<lparr>message_history :=
                         update_message_history dumps r (history_with reuse self pm),
                       sent := sent self @ replicate k ?req,
                       trajectory_recorder :=
                         (case trajectory_recorder self of
                            None \<Rightarrow> None
                          | Some recorded \<Rightarrow>
                              Some (recorded @
                                [\<lparr> i_messages = messages, i_response = r,
                                   i_provider = lit ''azure'', i_model = model mp,
                                   i_tools = tools \<rparr>]))\<rparr>)))"
      unfolding chat_eq
      apply (subst R)
      unfolding fst_eq snd_eq
      by (simp split: sum.splits option.splits)
  qed
qed


lemma tool_calls_loop_ids:
  "tool_calls_loop loads acc tcs = Inr out \<Longrightarrow>
     map call_id out = map call_id acc @ map mtc_id tcs \<and>
     map name out = map name acc @ map (\<lambda>tc. f_name (mtc_function tc)) tcs"
proof (induction tcs arbitrary: acc)
  case Nil
  then show ?case by simp
next
  case (Cons tc tcs)
  let ?d = "if f_arguments (mtc_function tc) \<noteq> []
            then loads (f_arguments (mtc_function tc)) else Some (JObj [])"
  show ?case
  proof (cases ?d)
    case None
    with Cons.prems show ?thesis by simp
  next
    case (Some args)
    with Cons.prems have
      "tool_calls_loop loads
         (acc @ [\<lparr> name = f_name (mtc_function tc), call_id = mtc_id tc, arguments = args \<rparr>])
         tcs = Inr out"
      by simp
    from Cons.IH [OF this] show ?thesis by simp
  qed
qed

lemma tool_calls_loop_fails:
  "tool_calls_loop loads acc tcs = Inl e \<Longrightarrow>
     e = JSONDecodeError \<and>
     (\<exists>tc\<in>set tcs. f_arguments (mtc_function tc) \<noteq> [] \<and> loads (f_arguments (mtc_function tc)) = None)"
proof (induction tcs arbitrary: acc)
  case Nil
  then show ?case by simp
next
  case (Cons tc tcs)
  let ?d = "if f_arguments (mtc_function tc) \<noteq> []
            then loads (f_arguments (mtc_function tc)) else Some (JObj [])"
  show ?case
  proof (cases ?d)
    case None
    then have "f_arguments (mtc_function tc) \<noteq> []" "loads (f_arguments (mtc_function tc)) = None"
      by (simp_all split: if_splits)
    moreover from None Cons.prems have "e = JSONDecodeError" by simp
    ultimately show ?thesis by simp
  next
    case (Some args)
    with Cons.prems have
      "tool_calls_loop loads
         (acc @ [\<lparr> name = f_name (mtc_function tc), call_id = mtc_id tc, arguments = args \<rparr>])
         tcs = Inl e"
      by simp
    from Cons.IH [OF this] show ?thesis by simp
  qed
qed

lemma build_llm_response_Inr:
  assumes "build_llm_response loads c = Inr r"
  shows "\<exists>ch rest. choices c = ch # rest \<and>
           r_content r = (case m_content (message ch) of None \<Rightarrow> [] | Some t \<Rightarrow> t) \<and>
           r_finish_reason r = finish_reason ch \<and>
           r_model r = c_model c \<and>
           r_usage r = (case usage c of
                          None \<Rightarrow> None
                        | Some u \<Rightarrow>
                            Some \<lparr> input_tokens = (case prompt_tokens u of None \<Rightarrow> 0 | Some n \<Rightarrow> n),
                                   output_tokens = (case completion_tokens u of None \<Rightarrow> 0 | Some n \<Rightarrow> n) \<rparr>) \<and>
           (case r_tool_calls r of
              None \<Rightarrow> m_tool_calls (message ch) = None \<or> m_tool_calls (message ch) = Some []
            | Some tcs \<Rightarrow> tcs \<noteq> [] \<and>
                (\<exists>ptcs. m_tool_calls (message ch) = Some ptcs \<and>
                        map call_id tcs = map mtc_id ptcs \<and>
                        map name tcs = map (\<lambda>tc. f_name (mtc_function tc)) ptcs))"
proof (cases "choices c")
  case Nil
  with assms show ?thesis by (simp add: build_llm_response_def)
next
  case (Cons ch rest)
  have content: "(if truthy (m_content (message ch)) then the (m_content (message ch)) else []) =
                   (case m_content (message ch) of None \<Rightarrow> [] | Some t \<Rightarrow> t)"
    by (cases "m_content (message ch)") auto
  show ?thesis
  proof (cases "m_tool_calls (message ch)")
    case None
    with assms Cons content show ?thesis
      by (auto simp: build_llm_response_def)
  next
    case (Some ptcs)
    show ?thesis
    proof (cases "ptcs = []")
      case True
      with assms Cons Some content show ?thesis
        by (auto simp: build_llm_response_def)
    next
      case False
      from assms Cons Some False obtain tcs where
        loop: "tool_calls_loop loads [] ptcs = Inr tcs" and
        r: "r = \<lparr> r_content = (case m_content (message ch) of None \<Rightarrow> [] | Some t \<Rightarrow> t),
                  r_tool_calls = Some tcs,
                  r_finish_reason = finish_reason ch,
                  r_model = c_model c,
                  r_usage = (case usage c of
                          None \<Rightarrow> None
                        | Some u \<Rightarrow>
                            Some \<lparr> input_tokens = (case prompt_tokens u of None \<Rightarrow> 0 | Some n \<Rightarrow> n),
                                   output_tokens = (case completion_tokens u of None \<Rightarrow> 0 | Some n \<Rightarrow> n) \<rparr>) \<rparr>"
        by (cases "tool_calls_loop loads [] ptcs") (auto simp: build_llm_response_def content)
      from tool_calls_loop_ids [OF loop]
      have ids: "map call_id tcs = map mtc_id ptcs"
        and names: "map name tcs = map (\<lambda>tc. f_name (mtc_function tc)) ptcs"
        by simp_all
      from ids False have "tcs \<noteq> []" by (cases tcs) auto
      with Cons Some ids names r show ?thesis by simp
    qed
  qed
qed

lemma build_llm_response_Inl:
  assumes "build_llm_response loads c = Inl e"
  shows "(e = IndexError \<and> choices c = []) \<or>
         (e = JSONDecodeError \<and>
          (\<exists>ch rest ptcs. choices c = ch # rest \<and> m_tool_calls (message ch) = Some ptcs \<and>
             (\<exists>tc\<in>set ptcs. f_arguments (mtc_function tc) \<noteq> [] \<and>
                             loads (f_arguments (mtc_function tc)) = None)))"
proof (cases "choices c")
  case Nil
  with assms show ?thesis by (simp add: build_llm_response_def)
next
  case (Cons ch rest)
  show ?thesis
  proof (cases "m_tool_calls (message ch)")
    case None
    with assms Cons show ?thesis by (simp add: build_llm_response_def)
  next
    case (Some ptcs)
    with assms Cons have "tool_calls_loop loads [] ptcs = Inl e"
      by (cases "tool_calls_loop loads [] ptcs") (auto simp: build_llm_response_def split: if_splits)
    from tool_calls_loop_fails [OF this] Cons Some show ?thesis by simp
  qed
qed

lemma update_message_history_cases:
  "update_message_history dumps r h =
     (case r_tool_calls r of
        None \<Rightarrow> if r_content r \<noteq> [] then h @ [ChatCompletionAssistantMessageParam (r_content r) None] else h
      | Some tcs \<Rightarrow>
          if tcs \<noteq> []
          then h @ [ChatCompletionAssistantMessageParam (r_content r) (Some (map (tool_call_param dumps) tcs))]
          else if r_content r \<noteq> [] then h @ [ChatCompletionAssistantMessageParam (r_content r) None] else h)"
  by (simp add: update_message_history_def split: option.splits list.splits)

lemma parse_message_invalid:
  "invalid_message m \<Longrightarrow> parse_message dumps m = Inl (validation_error m)"
  by (auto simp: invalid_message_def known_role_def parse_message_def validation_error_def)

lemma parse_message_valid:
  "\<not> invalid_message m \<Longrightarrow> \<exists>r. parse_message dumps m = Inr r"
  by (auto simp: invalid_message_def known_role_def parse_message_def split: option.splits)

lemma parse_messages_valid:
  "\<forall>m\<in>set ms. \<not> invalid_message m \<Longrightarrow> \<exists>rs. parse_messages dumps ms = Inr rs"
proof (induction ms)
  case Nil
  show ?case by (simp add: parse_messages_Nil)
next
  case (Cons m ms)
  then obtain rs where "parse_messages dumps ms = Inr rs" by auto
  moreover from Cons.prems obtain r where "parse_message dumps m = Inr r"
    using parse_message_valid [of m dumps] by auto
  ultimately show ?case by (simp add: parse_messages_Cons)
qed

lemma parse_messages_first_invalid:
  "\<forall>x\<in>set pre. \<not> invalid_message x \<Longrightarrow> invalid_message m \<Longrightarrow>
     parse_messages dumps (pre @ m # post) = Inl (validation_error m)"
proof (induction pre)
  case Nil
  then show ?case by (simp add: parse_messages_Cons parse_message_invalid)
next
  case (Cons x pre)
  from Cons.prems obtain r where "parse_message dumps x = Inr r"
    using parse_message_valid [of x dumps] by auto
  moreover from Cons have "parse_messages dumps (pre @ m # post) = Inl (validation_error m)"
    by simp
  ultimately show ?case by (simp add: parse_messages_Cons)
qed

lemma parse_messages_invalid:
  assumes "\<exists>m\<in>set ms. invalid_message m"
  shows "\<exists>m\<in>set ms. invalid_message m \<and> parse_messages dumps ms = Inl (validation_error m)"
proof -
  from assms obtain pre m post where
    "ms = pre @ m # post" "invalid_message m" "\<forall>x\<in>set pre. \<not> invalid_message x"
    using split_list_first_prop [of ms invalid_message] by blast
  then show ?thesis
    using parse_messages_first_invalid [of pre m dumps post] by auto
qed

lemma chat_valid_no_ValueError:
  assumes "parse_messages dumps messages = Inr pm"
  shows "fst (chat dumps loads create self messages mp tools reuse) \<noteq> Inl (ValueError t)"
proof -
  from chat_valid [OF assms, where mp=mp and tools=tools and self=self and reuse=reuse
      and create=create and loads=loads]
  obtain k req where
    eq: "chat dumps loads create self messages mp tools reuse =
       (case create (length (sent self) + k - 1) req of
          Inl x \<Rightarrow>
            (Inl (APIError x),
             self\<lparr>message_history := history_with reuse self pm,
                  sent := sent self @ replicate k req\<rparr>)
        | Inr c \<Rightarrow>
            (case build_llm_response loads c of
               Inl e \<Rightarrow>
                 (Inl e,
                  self\<lparr>message_history := history_with reuse self pm,
                       sent := sent self @ replicate k req\<rparr>)
             | Inr r \<Rightarrow>
                 (Inr r,
                  self\<lparr>message_history :=
                         update_message_history dumps r (history_with reuse self pm),
                       sent := sent self @ replicate k req,
                       trajectory_recorder :=
                         (case trajectory_recorder self of
                            None \<Rightarrow> None
                          | Some recorded \<Rightarrow>
                              Some (recorded @
                                [\<lparr> i_messages = messages, i_response = r,
                                   i_provider = lit ''azure'', i_model = model mp,
                                   i_tools = tools \<rparr>]))\<rparr>)))"
    by blast
  show ?thesis
    unfolding eq
    by (auto split: sum.splits dest: build_llm_response_Inl)
qed

section \<open>Validation errors\<close>

text \<open>
  Claim C1. For every list of messages, \<open>set_chat_history\<close> and \<open>chat\<close> raise a
  validation error (a \<open>ValueError\<close>) if and only if some message is invalid: it carries
  neither a tool call nor a tool result and has one of the roles \<open>system\<close>, \<open>user\<close>,
  \<open>assistant\<close> with empty or missing content, or another role. The error is the one of
  an invalid message (for an unknown role, the message names that role), and \<open>chat\<close>
  then returns the client as it was: its history is unchanged and no request was sent.
\<close>

theorem validation_errors:
  "((\<exists>t. fst (set_chat_history dumps self messages) = Inl (ValueError t)) \<longleftrightarrow>
      (\<exists>m\<in>set messages. invalid_message m)) \<and>
   ((\<exists>t. fst (chat dumps loads create self messages mp tools reuse) = Inl (ValueError t)) \<longleftrightarrow>
      (\<exists>m\<in>set messages. invalid_message m)) \<and>
   ((\<exists>m\<in>set messages. invalid_message m) \<longrightarrow>
      (\<exists>m\<in>set messages. invalid_message m \<and>
         set_chat_history dumps self messages = (Inl (validation_error m), self) \<and>
         chat dumps loads create self messages mp tools reuse = (Inl (validation_error m), self))) \<and>
   ((\<forall>m\<in>set messages. \<not> invalid_message m) \<longrightarrow>
      fst (set_chat_history dumps self messages) = Inr ())"
proof (cases "\<exists>m\<in>set messages. invalid_message m")
  case True
  from parse_messages_invalid [OF True, of dumps] obtain m where
    m: "m \<in> set messages" "invalid_message m"
       "parse_messages dumps messages = Inl (validation_error m)"
    by blast
  have s: "set_chat_history dumps self messages = (Inl (validation_error m), self)"
    using m by (simp add: set_chat_history_def)
  have c: "chat dumps loads create self messages mp tools reuse = (Inl (validation_error m), self)"
    using m by (simp add: chat_invalid)
  have v: "\<exists>t. validation_error m = ValueError t"
    by (simp add: validation_error_def)
  show ?thesis using True m s c v by auto
next
  case False
  then have all: "\<forall>m\<in>set messages. \<not> invalid_message m" by simp
  from parse_messages_valid [OF all, of dumps] obtain pm where
    pm: "parse_messages dumps messages = Inr pm" by blast
  have s: "set_chat_history dumps self messages = (Inr (), self\<lparr>message_history := pm\<rparr>)"
    using pm by (simp add: set_chat_history_def)
  have c: "\<And>t. fst (chat dumps loads create self messages mp tools reuse) \<noteq> Inl (ValueError t)"
    using chat_valid_no_ValueError [OF pm] by blast
  show ?thesis using False s c by auto
qed


theorem validation_errors_witness:
  "invalid_message empty_system \<and> \<not> invalid_message user_hello \<and>
   set_chat_history sample_dumps sample_client [user_hello, empty_system] =
     (Inl (ValueError (lit ''System message content is required'')), sample_client) \<and>
   chat sample_dumps sample_loads provider_text sample_client [user_hello, empty_system]
       sample_parameters None True =
     (Inl (ValueError (lit ''System message content is required'')), sample_client) \<and>
   fst (set_chat_history sample_dumps sample_client [user_hello]) = Inr ()"
proof -
  have bad: "invalid_message empty_system"
    by (simp add: invalid_message_def known_role_def empty_system_def)
  have good: "\<not> invalid_message user_hello"
    by (simp add: invalid_message_def known_role_def user_hello_def lit_def)
  have err: "validation_error empty_system =
               ValueError (lit ''System message content is required'')"
    by (simp add: validation_error_def empty_system_def)
  have ex: "\<exists>m\<in>set [user_hello, empty_system]. invalid_message m"
    using bad by simp
  have all: "\<forall>m\<in>set [user_hello]. \<not> invalid_message m"
    using good by simp
  from validation_errors [of sample_dumps sample_client "[user_hello, empty_system]"
         sample_loads provider_text sample_parameters None True] ex
  obtain m where m: "m \<in> set [user_hello, empty_system]" "invalid_message m"
    "set_chat_history sample_dumps sample_client [user_hello, empty_system] =
       (Inl (validation_error m), sample_client)"
    "chat sample_dumps sample_loads provider_text sample_client [user_hello, empty_system]
       sample_parameters None True = (Inl (validation_error m), sample_client)"
    by blast
  from m(1,2) good have "m = empty_system" by auto
  with m err have
    "set_chat_history sample_dumps sample_client [user_hello, empty_system] =
       (Inl (ValueError (lit ''System message content is required'')), sample_client)"
    "chat sample_dumps sample_loads provider_text sample_client [user_hello, empty_system]
       sample_parameters None True =
       (Inl (ValueError (lit ''System message content is required'')), sample_client)"
    by simp_all
  moreover from validation_errors [of sample_dumps sample_client "[user_hello]"
         sample_loads provider_text sample_parameters None True] all
  have "fst (set_chat_history sample_dumps sample_client [user_hello]) = Inr ()"
    by blast
  ultimately show ?thesis using bad good by simp
qed

lemma parse_messages_append:
  "parse_messages dumps (xs @ ys) =
     (case parse_messages dumps xs of
        Inl e \<Rightarrow> Inl e
      | Inr a \<Rightarrow> (case parse_messages dumps ys of Inl e \<Rightarrow> Inl e | Inr b \<Rightarrow> Inr (a @ b)))"
proof (induction xs)
  case Nil
  show ?case by (simp add: parse_messages_Nil split: sum.splits)
next
  case (Cons x xs)
  then show ?case
    by (simp add: parse_messages_Cons split: sum.splits)
qed

lemma parse_messages_single:
  "parse_messages dumps [m] =
     (case parse_message dumps m of Inl e \<Rightarrow> Inl e | Inr r \<Rightarrow> Inr [r])"
  by (simp add: parse_messages_Cons parse_messages_Nil split: sum.splits)

section \<open>Precedence of the payload kinds\<close>

text \<open>
  Claim C10. \<open>parse_messages\<close> discriminates by a fixed precedence. A message whose
  \<open>tool_call\<close> is set becomes the function-role record of that call, whatever its
  \<open>tool_result\<close>, role and content are; a message with a \<open>tool_result\<close> and no
  \<open>tool_call\<close> becomes the tool-role record of that result, whatever its role and content
  are; a message is rejected only when it carries neither payload, and then for its
  empty content or its role. Each message of a list is translated on its own.
\<close>

theorem payload_precedence:
  "(\<forall>tc. tool_call m = Some tc \<longrightarrow>
      parse_messages dumps [m] =
        Inr [ChatCompletionFunctionMessageParam
               (dumps (JObj [(lit ''name'', JStr (name tc)), (lit ''arguments'', arguments tc)]))
               (name tc)]) \<and>
   (\<forall>tr. tool_call m = None \<and> tool_result m = Some tr \<longrightarrow>
      parse_messages dumps [m] =
        Inr [ChatCompletionToolMessageParam (tool_result_content tr) (tr_call_id tr)]) \<and>
   (\<forall>e. parse_messages dumps [m] = Inl e \<longrightarrow>
      tool_call m = None \<and> tool_result m = None \<and>
      (\<not> truthy (content m) \<or> \<not> known_role (role m))) \<and>
   parse_messages dumps (pre @ m # post) =
     (case parse_messages dumps pre of
        Inl e \<Rightarrow> Inl e
      | Inr a \<Rightarrow>
          (case parse_messages dumps [m] of
             Inl e \<Rightarrow> Inl e
           | Inr b \<Rightarrow>
               (case parse_messages dumps post of
                  Inl e \<Rightarrow> Inl e
                | Inr c \<Rightarrow> Inr (a @ b @ c))))"
proof (intro conjI allI impI)
  fix tc assume "tool_call m = Some tc"
  then show "parse_messages dumps [m] =
        Inr [ChatCompletionFunctionMessageParam
               (dumps (JObj [(lit ''name'', JStr (name tc)), (lit ''arguments'', arguments tc)]))
               (name tc)]"
    by (simp add: parse_messages_single parse_message_def)
next
  fix tr assume "tool_call m = None \<and> tool_result m = Some tr"
  then show "parse_messages dumps [m] =
        Inr [ChatCompletionToolMessageParam (tool_result_content tr) (tr_call_id tr)]"
    by (simp add: parse_messages_single parse_message_def)
next
  fix e assume e: "parse_messages dumps [m] = Inl e"
  then have "parse_message dumps m = Inl e"
    by (simp add: parse_messages_single split: sum.splits)
  then have "invalid_message m"
    using parse_message_valid [of m dumps] by auto
  then show "tool_call m = None" "tool_result m = None"
    "\<not> truthy (content m) \<or> \<not> known_role (role m)"
    by (auto simp: invalid_message_def)
next
  have "pre @ m # post = pre @ ([m] @ post)" by simp
  then show "parse_messages dumps (pre @ m # post) =
     (case parse_messages dumps pre of
        Inl e \<Rightarrow> Inl e
      | Inr a \<Rightarrow>
          (case parse_messages dumps [m] of
             Inl e \<Rightarrow> Inl e
           | Inr b \<Rightarrow>
               (case parse_messages dumps post of
                  Inl e \<Rightarrow> Inl e
                | Inr c \<Rightarrow> Inr (a @ b @ c))))"
    by (simp only: parse_messages_append [of dumps pre] parse_messages_append [of dumps "[m]"])
       (simp split: sum.splits)
qed

theorem payload_precedence_witness:
  "tool_call call_message = Some sample_call \<and>
   parse_messages sample_dumps [call_message] =
     Inr [ChatCompletionFunctionMessageParam (lit ''{...}'') (lit ''bash'')] \<and>
   tool_call failed_result_message = None \<and>
   tool_result failed_result_message = Some failed_result \<and>
   parse_messages sample_dumps [failed_result_message] =
     Inr [ChatCompletionToolMessageParam (tool_result_content failed_result) (lit ''c1'')] \<and>
   parse_messages sample_dumps [empty_system] =
     Inl (ValueError (lit ''System message content is required'')) \<and>
   tool_call empty_system = None \<and> tool_result empty_system = None \<and>
   \<not> truthy (content empty_system)"
proof -
  have c: "tool_call call_message = Some sample_call"
    by (simp add: call_message_def)
  have r: "tool_call failed_result_message = None \<and>
           tool_result failed_result_message = Some failed_result"
    by (simp add: failed_result_message_def)
  have e: "parse_messages sample_dumps [empty_system] =
             Inl (ValueError (lit ''System message content is required''))"
    by (simp add: parse_messages_def parse_message_def empty_system_def)
  from payload_precedence [of call_message sample_dumps "[]" "[]"] c
  have 1: "parse_messages sample_dumps [call_message] =
     Inr [ChatCompletionFunctionMessageParam
            (sample_dumps (JObj [(lit ''name'', JStr (name sample_call)),
                                 (lit ''arguments'', arguments sample_call)]))
            (name sample_call)]"
    by blast
  from payload_precedence [of failed_result_message sample_dumps "[]" "[]"] r
  have 2: "parse_messages sample_dumps [failed_result_message] =
     Inr [ChatCompletionToolMessageParam (tool_result_content failed_result)
            (tr_call_id failed_result)]"
    by blast
  from payload_precedence [of empty_system sample_dumps "[]" "[]"] e
  have 3: "tool_call empty_system = None \<and> tool_result empty_system = None \<and>
           (\<not> truthy (content empty_system) \<or> \<not> known_role (role empty_system))"
    by blast
  have k: "known_role (role empty_system)"
    by (simp add: known_role_def empty_system_def)
  show ?thesis
    using c r e 1 2 3 k
    by (simp add: sample_dumps_def sample_call_def failed_result_def)
qed

lemma parse_message_Inr:
  assumes "parse_message dumps m = Inr r"
  shows "(case tool_call m of
            Some tc \<Rightarrow>
              r = ChatCompletionFunctionMessageParam
                    (dumps (JObj [(lit ''name'', JStr (name tc)), (lit ''arguments'', arguments tc)]))
                    (name tc)
          | None \<Rightarrow>
         (case tool_result m of
            Some tr \<Rightarrow>
              r = ChatCompletionToolMessageParam
                    (strip ((if truthy (result tr) then the (result tr) @ [10] else []) @
                            (if truthy (error tr)
                             then lit ''Tool call failed with error:'' @ [10] @ the (error tr)
                             else [])))
                    (tr_call_id tr)
          | None \<Rightarrow>
              role_of r = role m \<and> content m = Some (content_of r) \<and> content_of r \<noteq> [] \<and>
              (r = ChatCompletionSystemMessageParam (content_of r) \<or>
               r = ChatCompletionUserMessageParam (content_of r) \<or>
               r = ChatCompletionAssistantMessageParam (content_of r) None)))"
proof (cases "tool_call m")
  case (Some tc)
  with assms show ?thesis by (auto simp: parse_message_def)
next
  case None
  note tc = this
  show ?thesis
  proof (cases "tool_result m")
    case (Some tr)
    with assms tc show ?thesis
      by (auto simp: parse_message_def tool_result_content_def Let_def)
  next
    case None
    with assms tc show ?thesis
      by (cases "content m") (auto simp: parse_message_def split: if_splits)
  qed
qed

section \<open>Translation by payload kind\<close>

text \<open>
  Claim C2, as amended. For a list of valid messages \<open>parse_messages\<close> returns a list of
  the same length and order in which a message carrying a tool call is a function-role
  record whose content is the JSON encoding of name and arguments and whose name is the
  tool's name; a message carrying a tool result (and no tool call) is a tool-role record
  whose content is the result text followed by a newline when the result is not empty,
  then the line \<open>Tool call failed with error:\<close> and the error text when the error is not
  empty, the whole trimmed; and a plain message is one record of its role and content.
\<close>

theorem parse_messages_translation:
  assumes "\<forall>m\<in>set ms. \<not> invalid_message m"
  shows "\<exists>rs. parse_messages dumps ms = Inr rs \<and> length rs = length ms \<and>
     (\<forall>i<length ms.
        (case tool_call (ms ! i) of
            Some tc \<Rightarrow>
              rs ! i = ChatCompletionFunctionMessageParam
                    (dumps (JObj [(lit ''name'', JStr (name tc)), (lit ''arguments'', arguments tc)]))
                    (name tc)
          | None \<Rightarrow>
         (case tool_result (ms ! i) of
            Some tr \<Rightarrow>
              rs ! i = ChatCompletionToolMessageParam
                    (strip ((if truthy (result tr) then the (result tr) @ [10] else []) @
                            (if truthy (error tr)
                             then lit ''Tool call failed with error:'' @ [10] @ the (error tr)
                             else [])))
                    (tr_call_id tr)
          | None \<Rightarrow>
              role_of (rs ! i) = role (ms ! i) \<and> content (ms ! i) = Some (content_of (rs ! i)) \<and>
              content_of (rs ! i) \<noteq> [] \<and>
              (rs ! i = ChatCompletionSystemMessageParam (content_of (rs ! i)) \<or>
               rs ! i = ChatCompletionUserMessageParam (content_of (rs ! i)) \<or>
               rs ! i = ChatCompletionAssistantMessageParam (content_of (rs ! i)) None))))"
proof -
  from parse_messages_valid [OF assms, of dumps] obtain rs where
    rs: "parse_messages dumps ms = Inr rs" by blast
  then have all2: "list_all2 (\<lambda>m r. parse_message dumps m = Inr r) ms rs"
    by (simp add: parse_messages_Inr_iff)
  then have len: "length rs = length ms"
    by (simp add: list_all2_lengthD)
  have each: "\<And>i. i < length ms \<Longrightarrow> parse_message dumps (ms ! i) = Inr (rs ! i)"
    using all2 by (simp add: list_all2_conv_all_nth)
  show ?thesis
  proof (intro exI [of _ rs] conjI allI impI)
    show "parse_messages dumps ms = Inr rs" by (rule rs)
    show "length rs = length ms" by (rule len)
    fix i assume "i < length ms"
    from parse_message_Inr [OF each [OF this]]
    show "(case tool_call (ms ! i) of
            Some tc \<Rightarrow>
              rs ! i = ChatCompletionFunctionMessageParam
                    (dumps (JObj [(lit ''name'', JStr (name tc)), (lit ''arguments'', arguments tc)]))
                    (name tc)
          | None \<Rightarrow>
         (case tool_result (ms ! i) of
            Some tr \<Rightarrow>
              rs ! i = ChatCompletionToolMessageParam
                    (strip ((if truthy (result tr) then the (result tr) @ [10] else []) @
                            (if truthy (error tr)
                             then lit ''Tool call failed with error:'' @ [10] @ the (error tr)
                             else [])))
                    (tr_call_id tr)
          | None \<Rightarrow>
              role_of (rs ! i) = role (ms ! i) \<and> content (ms ! i) = Some (content_of (rs ! i)) \<and>
              content_of (rs ! i) \<noteq> [] \<and>
              (rs ! i = ChatCompletionSystemMessageParam (content_of (rs ! i)) \<or>
               rs ! i = ChatCompletionUserMessageParam (content_of (rs ! i)) \<or>
               rs ! i = ChatCompletionAssistantMessageParam (content_of (rs ! i)) None)))" .
  qed
qed

theorem parse_messages_translation_witness:
  "\<not> invalid_message user_hello \<and> \<not> invalid_message call_message \<and>
   \<not> invalid_message failed_result_message \<and>
   parse_messages sample_dumps [user_hello, call_message, failed_result_message] =
     Inr [ChatCompletionUserMessageParam (lit ''hello''),
          ChatCompletionFunctionMessageParam (lit ''{...}'') (lit ''bash''),
          ChatCompletionToolMessageParam
            (lit ''a'' @ [10] @ lit ''Tool call failed with error:'' @ [10] @ lit ''b'')
            (lit ''c1'')]"
proof -
  have v: "\<not> invalid_message user_hello" "\<not> invalid_message call_message"
    "\<not> invalid_message failed_result_message"
    by (simp_all add: invalid_message_def known_role_def user_hello_def call_message_def
          failed_result_message_def lit_def)
  then have all: "\<forall>m\<in>set [user_hello, call_message, failed_result_message].
                    \<not> invalid_message m"
    by simp
  from parse_messages_translation [OF all, of sample_dumps] obtain rs where
    rs: "parse_messages sample_dumps [user_hello, call_message, failed_result_message] = Inr rs"
    and len: "length rs = 3"
    by auto
  have "parse_messages sample_dumps [user_hello, call_message, failed_result_message] =
     Inr [ChatCompletionUserMessageParam (lit ''hello''),
          ChatCompletionFunctionMessageParam (lit ''{...}'') (lit ''bash''),
          ChatCompletionToolMessageParam
            (lit ''a'' @ [10] @ lit ''Tool call failed with error:'' @ [10] @ lit ''b'')
            (lit ''c1'')]"
    by (simp add: parse_messages_def parse_message_def tool_result_content_def
          user_hello_def call_message_def failed_result_message_def failed_result_def
          sample_call_def sample_dumps_def strip_def isspace_def lit_def)
  with v rs len show ?thesis by simp
qed

text \<open>
  The claim as worded appends the failure line directly to the result text. The code
  puts a newline between them: for the result \<open>a\<close> with the error \<open>b\<close> the content is
  not the one the wording gives.
\<close>

theorem tool_result_content_separator:
  "parse_messages sample_dumps [failed_result_message] =
     Inr [ChatCompletionToolMessageParam
            (lit ''a'' @ [10] @ lit ''Tool call failed with error:'' @ [10] @ lit ''b'')
            (lit ''c1'')] \<and>
   claimed_tool_result_content failed_result =
     lit ''aTool call failed with error:'' @ [10] @ lit ''b'' \<and>
   parse_messages sample_dumps [failed_result_message] \<noteq>
     Inr [ChatCompletionToolMessageParam (claimed_tool_result_content failed_result)
            (tr_call_id failed_result)]"
  by (simp add: parse_messages_def parse_message_def tool_result_content_def
        claimed_tool_result_content_def failed_result_message_def failed_result_def
        strip_def isspace_def lit_def)


section \<open>supports\_tool\_calling\<close>

text \<open>
  Claim C5, as amended. \<open>supports_tool_calling\<close> of the Azure client returns true for
  every configuration, whatever the model name, and leaves the client as it was.
\<close>

theorem supports_tool_calling_always:
  "supports_tool_calling self model_parameters = (True, self)"
  by (simp add: supports_tool_calling_def)

text \<open>For the unrecognised model name of the specification the answer is true, not false.\<close>

theorem supports_tool_calling_unknown_model:
  "fst (supports_tool_calling sample_client
          (sample_parameters\<lparr>model := lit ''no such model''\<rparr>)) = True"
  by (simp add: supports_tool_calling_def)

section \<open>Consequences for a chat call\<close>

lemma chat_valid_sent:
  assumes "parse_messages dumps messages = Inr pm"
  shows "\<exists>k req. 1 \<le> k \<and> k \<le> Suc (max_retries mp) \<and>
     q_messages req = history_with reuse self pm \<and>
     sent (snd (chat dumps loads create self messages mp tools reuse)) =
       sent self @ replicate k req \<and>
     (\<forall>j<k - 1. isl (create (length (sent self) + j) req)) \<and>
     (isl (create (length (sent self) + k - 1) req) \<longrightarrow> k = Suc (max_retries mp)) \<and>
     fst (chat dumps loads create self messages mp tools reuse) =
       (case create (length (sent self) + k - 1) req of
          Inl x \<Rightarrow> Inl (APIError x)
        | Inr c \<Rightarrow> build_llm_response loads c) \<and>
     message_history (snd (chat dumps loads create self messages mp tools reuse)) =
       (case fst (chat dumps loads create self messages mp tools reuse) of
          Inl e \<Rightarrow> history_with reuse self pm
        | Inr r \<Rightarrow> update_message_history dumps r (history_with reuse self pm))"
proof -
  from chat_valid [OF assms, where mp=mp and tools=tools and self=self and reuse=reuse
      and create=create and loads=loads]
  obtain k req where k: "1 \<le> k" "k \<le> Suc (max_retries mp)"
    and req: "req = request_of mp (schemas_of tools)
                      (self\<lparr>message_history := history_with reuse self pm\<rparr>)"
    and before: "\<forall>j<k - 1. isl (create (length (sent self) + j) req)"
    and last: "isl (create (length (sent self) + k - 1) req) \<longrightarrow> k = Suc (max_retries mp)"
    and eq: "chat dumps loads create self messages mp tools reuse =
       (case create (length (sent self) + k - 1) req of
          Inl x \<Rightarrow>
            (Inl (APIError x),
             self\<lparr>message_history := history_with reuse self pm,
                  sent := sent self @ replicate k req\<rparr>)
        | Inr c \<Rightarrow>
            (case build_llm_response loads c of
               Inl e \<Rightarrow>
                 (Inl e,
                  self\<lparr>message_history := history_with reuse self pm,
                       sent := sent self @ replicate k req\<rparr>)
             | Inr r \<Rightarrow>
                 (Inr r,
                  self\<lparr>message_history :=
                         update_message_history dumps r (history_with reuse self pm),
                       sent := sent self @ replicate k req,
                       trajectory_recorder :=
                         (case trajectory_recorder self of
                            None \<Rightarrow> None
                          | Some recorded \<Rightarrow>
                              Some (recorded @
                                [\<lparr> i_messages = messages, i_response = r,
                                   i_provider = lit ''azure'', i_model = model mp,
                                   i_tools = tools \<rparr>]))\<rparr>)))"
    by blast
  have q: "q_messages req = history_with reuse self pm"
    by (simp add: req request_of_def)
  show ?thesis
  proof (intro exI [of _ k] exI [of _ req] conjI)
    show "1 \<le> k" "k \<le> Suc (max_retries mp)" using k by simp_all
    show "q_messages req = history_with reuse self pm" by (rule q)
    show "\<forall>j<k - 1. isl (create (length (sent self) + j) req)" by (rule before)
    show "isl (create (length (sent self) + k - 1) req) \<longrightarrow> k = Suc (max_retries mp)"
      by (rule last)
    show "sent (snd (chat dumps loads create self messages mp tools reuse)) =
            sent self @ replicate k req"
      unfolding eq by (simp split: sum.splits)
    show "fst (chat dumps loads create self messages mp tools reuse) =
       (case create (length (sent self) + k - 1) req of
          Inl x \<Rightarrow> Inl (APIError x)
        | Inr c \<Rightarrow> build_llm_response loads c)"
      unfolding eq by (simp split: sum.splits)
    show "message_history (snd (chat dumps loads create self messages mp tools reuse)) =
       (case fst (chat dumps loads create self messages mp tools reuse) of
          Inl e \<Rightarrow> history_with reuse self pm
        | Inr r \<Rightarrow> update_message_history dumps r (history_with reuse self pm))"
      unfolding eq by (simp split: sum.splits)
  qed
qed

lemma chat_Inr_reply:
  assumes "chat dumps loads create self messages mp tools reuse = (Inr r, s')"
  shows "\<exists>pm c. parse_messages dumps messages = Inr pm \<and> sent s' \<noteq> [] \<and>
     create (length (sent s') - 1) (last (sent s')) = Inr c \<and>
     build_llm_response loads c = Inr r \<and>
     message_history s' = update_message_history dumps r (history_with reuse self pm)"
proof (cases "parse_messages dumps messages")
  case (Inl e)
  with assms show ?thesis by (simp add: chat_invalid)
next
  case (Inr pm)
  from chat_valid_sent [OF Inr, where mp=mp and tools=tools and self=self and reuse=reuse
      and create=create and loads=loads]
  obtain k req where k: "1 \<le> k"
    and snt: "sent (snd (chat dumps loads create self messages mp tools reuse)) =
                sent self @ replicate k req"
    and res: "fst (chat dumps loads create self messages mp tools reuse) =
       (case create (length (sent self) + k - 1) req of
          Inl x \<Rightarrow> Inl (APIError x)
        | Inr c \<Rightarrow> build_llm_response loads c)"
    and hist: "message_history (snd (chat dumps loads create self messages mp tools reuse)) =
       (case fst (chat dumps loads create self messages mp tools reuse) of
          Inl e \<Rightarrow> history_with reuse self pm
        | Inr r \<Rightarrow> update_message_history dumps r (history_with reuse self pm))"
    by blast
  from snt assms have s': "sent s' = sent self @ replicate k req" by simp
  from k have rep: "replicate k req \<noteq> []" by (cases k) simp_all
  from k have lst: "last (sent s') = req" unfolding s' by (cases k) simp_all
  from k have idx: "length (sent s') - 1 = length (sent self) + k - 1" unfolding s' by simp
  from res assms obtain c where c: "create (length (sent self) + k - 1) req = Inr c"
    and b: "build_llm_response loads c = Inr r"
    by (cases "create (length (sent self) + k - 1) req") simp_all
  from hist assms have h: "message_history s' =
      update_message_history dumps r (history_with reuse self pm)" by simp
  show ?thesis
    using Inr s' rep lst idx c b h by simp
qed

section \<open>The model on the sample inputs\<close>

lemma lit_eq_iff: "lit a = lit b \<longleftrightarrow> a = b"
  by (simp add: lit_def inj_map_eq_map inj_on_def)

lemma lit_Nil_iff: "lit a = [] \<longleftrightarrow> a = []" "[] = lit a \<longleftrightarrow> a = []"
  by (auto simp: lit_def)

lemmas lit_simps = lit_eq_iff lit_Nil_iff

lemmas sample_defs =
  sample_dumps_def sample_loads_def sample_parameters_def sample_client_def user_hello_def
  text_reply_def silent_reply_def tool_reply_def provider_text_def provider_silent_def
  provider_tool_def provider_flaky_def provider_down_def hello_request_def text_response_def
  silent_response_def tool_response_def sample_call_def sample_call_param_def

lemmas chat_defs =
  chat_def parse_messages_def parse_message_def create_azure_response_def
  build_llm_response_def update_message_history_def tool_call_param_def Let_def

lemma parse_hello:
  "parse_messages sample_dumps [user_hello] = Inr [ChatCompletionUserMessageParam (lit ''hello'')]"
  by (simp add: parse_messages_def parse_message_def user_hello_def lit_simps)

lemma chat_text_True:
  "chat sample_dumps sample_loads provider_text sample_client [user_hello]
     sample_parameters None True =
   (Inr text_response,
    sample_client
      \<lparr>message_history :=
         [ChatCompletionSystemMessageParam (lit ''brief''),
          ChatCompletionUserMessageParam (lit ''hello''),
          ChatCompletionAssistantMessageParam (lit ''hi'') None],
       sent := [hello_request [ChatCompletionSystemMessageParam (lit ''brief''),
                               ChatCompletionUserMessageParam (lit ''hello'')]]\<rparr>)"
  by (simp add: chat_defs sample_defs lit_simps numeral_2_eq_2)

lemma chat_silent_True:
  "chat sample_dumps sample_loads provider_silent sample_client [user_hello]
     sample_parameters None True =
   (Inr silent_response,
    sample_client
      \<lparr>message_history :=
         [ChatCompletionSystemMessageParam (lit ''brief''),
          ChatCompletionUserMessageParam (lit ''hello'')],
       sent := [hello_request [ChatCompletionSystemMessageParam (lit ''brief''),
                               ChatCompletionUserMessageParam (lit ''hello'')]]\<rparr>)"
  by (simp add: chat_defs sample_defs lit_simps numeral_2_eq_2)

lemma chat_tool_True:
  "chat sample_dumps sample_loads provider_tool sample_client [user_hello]
     sample_parameters None True =
   (Inr tool_response,
    sample_client
      \<lparr>message_history :=
         [ChatCompletionSystemMessageParam (lit ''brief''),
          ChatCompletionUserMessageParam (lit ''hello''),
          ChatCompletionAssistantMessageParam [] (Some [sample_call_param])],
       sent := [hello_request [ChatCompletionSystemMessageParam (lit ''brief''),
                               ChatCompletionUserMessageParam (lit ''hello'')]]\<rparr>)"
  by (simp add: chat_defs sample_defs lit_simps numeral_2_eq_2)

lemma chat_flaky_False:
  "chat sample_dumps sample_loads provider_flaky sample_client [user_hello]
     sample_parameters None False =
   (Inr text_response,
    sample_client
      \<lparr>message_history :=
         [ChatCompletionUserMessageParam (lit ''hello''),
          ChatCompletionAssistantMessageParam (lit ''hi'') None],
       sent := replicate 3 (hello_request [ChatCompletionUserMessageParam (lit ''hello'')])\<rparr>)"
  by (simp add: chat_defs sample_defs lit_simps numeral_2_eq_2 numeral_3_eq_3)

lemma chat_down_False:
  "chat sample_dumps sample_loads provider_down sample_client [user_hello]
     sample_parameters None False =
   (Inl (APIError (lit ''down'' @ [50])),
    sample_client
      \<lparr>message_history := [ChatCompletionUserMessageParam (lit ''hello'')],
       sent := replicate 3 (hello_request [ChatCompletionUserMessageParam (lit ''hello'')])\<rparr>)"
  by (simp add: chat_defs sample_defs lit_simps numeral_2_eq_2 numeral_3_eq_3)

section \<open>History update\<close>

text \<open>
  Claim C3. For messages that \<open>parse_messages\<close> translates, \<open>set_chat_history\<close> replaces
  the stored history with exactly the translation and sends no request. \<open>chat\<close> with
  \<open>reuse_history\<close> true sends at least one request, every one of them carrying the
  stored history extended with the translation, and the history it leaves starts with
  that; with \<open>reuse_history\<close> false the same holds with the translation alone.
\<close>

theorem history_update:
  assumes "parse_messages dumps messages = Inr pm"
  shows "set_chat_history dumps self messages = (Inr (), self\<lparr>message_history := pm\<rparr>) \<and>
     sent (snd (set_chat_history dumps self messages)) = sent self \<and>
     (\<exists>reqs t. reqs \<noteq> [] \<and>
        sent (snd (chat dumps loads create self messages mp tools True)) = sent self @ reqs \<and>
        (\<forall>q\<in>set reqs. q_messages q = message_history self @ pm) \<and>
        message_history (snd (chat dumps loads create self messages mp tools True)) =
          message_history self @ pm @ t) \<and>
     (\<exists>reqs t. reqs \<noteq> [] \<and>
        sent (snd (chat dumps loads create self messages mp tools False)) = sent self @ reqs \<and>
        (\<forall>q\<in>set reqs. q_messages q = pm) \<and>
        message_history (snd (chat dumps loads create self messages mp tools False)) = pm @ t)"
proof -
  have upd: "\<And>r h. \<exists>t. update_message_history dumps r h = h @ t"
    by (simp add: update_message_history_cases split: option.splits)
  have main: "\<exists>reqs t. reqs \<noteq> [] \<and>
        sent (snd (chat dumps loads create self messages mp tools reuse)) = sent self @ reqs \<and>
        (\<forall>q\<in>set reqs. q_messages q = history_with reuse self pm) \<and>
        message_history (snd (chat dumps loads create self messages mp tools reuse)) =
          history_with reuse self pm @ t" for reuse
  proof -
    from chat_valid_sent [OF assms, where mp=mp and tools=tools and self=self and reuse=reuse
        and create=create and loads=loads]
    obtain k req where k: "1 \<le> k"
      and q: "q_messages req = history_with reuse self pm"
      and snt: "sent (snd (chat dumps loads create self messages mp tools reuse)) =
                  sent self @ replicate k req"
      and hist: "message_history (snd (chat dumps loads create self messages mp tools reuse)) =
         (case fst (chat dumps loads create self messages mp tools reuse) of
            Inl e \<Rightarrow> history_with reuse self pm
          | Inr r \<Rightarrow> update_message_history dumps r (history_with reuse self pm))"
      by blast
    from k have ne: "replicate k req \<noteq> []" by (cases k) simp_all
    have "\<exists>t. message_history (snd (chat dumps loads create self messages mp tools reuse)) =
            history_with reuse self pm @ t"
      unfolding hist using upd by (cases "fst (chat dumps loads create self messages mp tools reuse)") simp_all
    with ne snt q show ?thesis by auto
  qed
  have s: "set_chat_history dumps self messages = (Inr (), self\<lparr>message_history := pm\<rparr>)"
    using assms by (simp add: set_chat_history_def)
  show ?thesis
    using s main [of True] main [of False] by (simp add: history_with_def)
qed

theorem history_update_witness:
  "parse_messages sample_dumps [user_hello] =
     Inr [ChatCompletionUserMessageParam (lit ''hello'')] \<and>
   set_chat_history sample_dumps sample_client [user_hello] =
     (Inr (), sample_client\<lparr>message_history := [ChatCompletionUserMessageParam (lit ''hello'')]\<rparr>) \<and>
   sent (snd (set_chat_history sample_dumps sample_client [user_hello])) = [] \<and>
   map q_messages (sent (snd (chat sample_dumps sample_loads provider_text sample_client
                                 [user_hello] sample_parameters None True))) =
     [[ChatCompletionSystemMessageParam (lit ''brief''),
       ChatCompletionUserMessageParam (lit ''hello'')]] \<and>
   message_history (snd (chat sample_dumps sample_loads provider_text sample_client
                           [user_hello] sample_parameters None True)) =
     [ChatCompletionSystemMessageParam (lit ''brief''),
      ChatCompletionUserMessageParam (lit ''hello''),
      ChatCompletionAssistantMessageParam (lit ''hi'') None] \<and>
   message_history (snd (chat sample_dumps sample_loads provider_flaky sample_client
                           [user_hello] sample_parameters None False)) =
     [ChatCompletionUserMessageParam (lit ''hello''),
      ChatCompletionAssistantMessageParam (lit ''hi'') None]"
proof -
  note p = parse_hello
  from history_update [OF p, of sample_client sample_loads provider_text sample_parameters None]
  have "set_chat_history sample_dumps sample_client [user_hello] =
          (Inr (), sample_client\<lparr>message_history := [ChatCompletionUserMessageParam (lit ''hello'')]\<rparr>)"
    and "sent (snd (set_chat_history sample_dumps sample_client [user_hello])) = sent sample_client"
    by blast+
  then show ?thesis
    using p by (simp add: chat_text_True chat_flaky_False) (simp add: sample_client_def hello_request_def)
qed

section \<open>The assistant turn\<close>

text \<open>
  Claim C4, as amended. After a successful \<open>chat\<close> call the history is the one that was
  sent, followed by the assistant turn when there is one: an assistant record carrying
  the tool calls when the response has tool calls, otherwise an assistant record with
  the plain content when the content is not empty, and nothing when the response has
  neither.
\<close>

theorem assistant_turn_appended:
  assumes "chat dumps loads create self messages mp tools reuse = (Inr r, s')"
  shows "\<exists>pm. parse_messages dumps messages = Inr pm \<and> r_tool_calls r \<noteq> Some [] \<and>
     message_history s' =
       (if reuse then message_history self @ pm else pm) @
       (case r_tool_calls r of
          Some tcs \<Rightarrow>
            [ChatCompletionAssistantMessageParam (r_content r)
               (Some (map (tool_call_param dumps) tcs))]
        | None \<Rightarrow>
            if r_content r \<noteq> []
            then [ChatCompletionAssistantMessageParam (r_content r) None]
            else [])"
proof -
  from chat_Inr_reply [OF assms] obtain pm c where
    pm: "parse_messages dumps messages = Inr pm"
    and b: "build_llm_response loads c = Inr r"
    and h: "message_history s' = update_message_history dumps r (history_with reuse self pm)"
    by blast
  from build_llm_response_Inr [OF b] have ne: "r_tool_calls r \<noteq> Some []"
    by (auto split: option.splits)
  show ?thesis
    using pm ne h
    by (auto simp: update_message_history_cases history_with_def split: option.splits)
qed

theorem assistant_turn_appended_witness:
  "chat sample_dumps sample_loads provider_tool sample_client [user_hello]
     sample_parameters None True =
   (Inr tool_response,
    sample_client
      \<lparr>message_history :=
         [ChatCompletionSystemMessageParam (lit ''brief''),
          ChatCompletionUserMessageParam (lit ''hello''),
          ChatCompletionAssistantMessageParam [] (Some [sample_call_param])],
       sent := [hello_request [ChatCompletionSystemMessageParam (lit ''brief''),
                               ChatCompletionUserMessageParam (lit ''hello'')]]\<rparr>) \<and>
   r_tool_calls tool_response = Some [sample_call] \<and>
   tool_call_param sample_dumps sample_call = sample_call_param \<and>
   message_history (snd (chat sample_dumps sample_loads provider_text sample_client
                           [user_hello] sample_parameters None True)) =
     (message_history sample_client @ [ChatCompletionUserMessageParam (lit ''hello'')]) @
     [ChatCompletionAssistantMessageParam (lit ''hi'') None]"
proof -
  from assistant_turn_appended [OF chat_text_True] parse_hello
  have "message_history (sample_client
      \<lparr>message_history :=
         [ChatCompletionSystemMessageParam (lit ''brief''),
          ChatCompletionUserMessageParam (lit ''hello''),
          ChatCompletionAssistantMessageParam (lit ''hi'') None],
       sent := [hello_request [ChatCompletionSystemMessageParam (lit ''brief''),
                               ChatCompletionUserMessageParam (lit ''hello'')]]\<rparr>) =
     (message_history sample_client @ [ChatCompletionUserMessageParam (lit ''hello'')]) @
     [ChatCompletionAssistantMessageParam (lit ''hi'') None]"
    by (auto simp: text_response_def lit_simps)
  moreover have "tool_call_param sample_dumps sample_call = sample_call_param"
    by (simp add: tool_call_param_def sample_call_def sample_call_param_def sample_dumps_def)
  ultimately show ?thesis
    by (simp add: chat_tool_True chat_text_True tool_response_def)
qed

text \<open>
  A provider reply with no content and no tool calls: the call succeeds and the history
  ends with the caller's user message, not with an assistant record.
\<close>

theorem assistant_turn_missing:
  "fst (chat sample_dumps sample_loads provider_silent sample_client [user_hello]
          sample_parameters None True) = Inr silent_response \<and>
   message_history (snd (chat sample_dumps sample_loads provider_silent sample_client
                           [user_hello] sample_parameters None True)) =
     message_history sample_client @ [ChatCompletionUserMessageParam (lit ''hello'')] \<and>
   role_of (last (message_history (snd (chat sample_dumps sample_loads provider_silent
                    sample_client [user_hello] sample_parameters None True)))) = lit ''user''"
  by (simp add: chat_silent_True) (simp add: sample_client_def)

section \<open>Round trip of the tool-call identifiers\<close>

text \<open>
  Claim C6. When a successful \<open>chat\<close> call returns tool calls, their identifiers are
  those of the tool calls in the first choice of the provider's reply, in order; the
  assistant record appended to the history carries the same identifiers; and a message
  carrying a tool result with the identifier of one of these calls is translated by
  \<open>parse_messages\<close> into a tool-role record with that identifier as \<open>tool_call_id\<close>.
\<close>

theorem call_id_round_trip:
  assumes "chat dumps loads create self messages mp tools reuse = (Inr r, s')"
      and "r_tool_calls r = Some tcs"
  shows "\<exists>c ch rest ptcs h.
     sent s' \<noteq> [] \<and> create (length (sent s') - 1) (last (sent s')) = Inr c \<and>
     choices c = ch # rest \<and> m_tool_calls (message ch) = Some ptcs \<and>
     map call_id tcs = map mtc_id ptcs \<and>
     message_history s' =
       h @ [ChatCompletionAssistantMessageParam (r_content r)
              (Some (map (tool_call_param dumps) tcs))] \<and>
     map tc_id (map (tool_call_param dumps) tcs) = map mtc_id ptcs \<and>
     (\<forall>tc\<in>set tcs. \<forall>m tr.
        tool_call m = None \<and> tool_result m = Some tr \<and> tr_call_id tr = call_id tc \<longrightarrow>
        parse_messages dumps [m] =
          Inr [ChatCompletionToolMessageParam (tool_result_content tr) (call_id tc)])"
proof -
  from chat_Inr_reply [OF assms(1)] obtain pm c where
    pm: "parse_messages dumps messages = Inr pm"
    and ne: "sent s' \<noteq> []"
    and c: "create (length (sent s') - 1) (last (sent s')) = Inr c"
    and b: "build_llm_response loads c = Inr r"
    and h: "message_history s' = update_message_history dumps r (history_with reuse self pm)"
    by blast
  from build_llm_response_Inr [OF b] assms(2) obtain ch rest ptcs where
    ch: "choices c = ch # rest" and tne: "tcs \<noteq> []"
    and p: "m_tool_calls (message ch) = Some ptcs"
    and ids: "map call_id tcs = map mtc_id ptcs"
    by auto
  have hist: "message_history s' = history_with reuse self pm @
               [ChatCompletionAssistantMessageParam (r_content r)
                  (Some (map (tool_call_param dumps) tcs))]"
    using h assms(2) tne by (simp add: update_message_history_cases)
  have stored: "map tc_id (map (tool_call_param dumps) tcs) = map mtc_id ptcs"
    using ids by (simp add: tool_call_param_def comp_def)
  have again: "\<forall>tc\<in>set tcs. \<forall>m tr.
        tool_call m = None \<and> tool_result m = Some tr \<and> tr_call_id tr = call_id tc \<longrightarrow>
        parse_messages dumps [m] =
          Inr [ChatCompletionToolMessageParam (tool_result_content tr) (call_id tc)]"
    by (auto simp: parse_messages_single parse_message_def)
  show ?thesis
    using ne c ch p ids hist stored again by blast
qed

theorem call_id_round_trip_witness:
  "fst (chat sample_dumps sample_loads provider_tool sample_client [user_hello]
          sample_parameters None True) = Inr tool_response \<and>
   r_tool_calls tool_response = Some [sample_call] \<and>
   call_id sample_call = lit ''c1'' \<and>
   last (message_history (snd (chat sample_dumps sample_loads provider_tool sample_client
                                 [user_hello] sample_parameters None True))) =
     ChatCompletionAssistantMessageParam [] (Some [sample_call_param]) \<and>
   tc_id sample_call_param = lit ''c1'' \<and>
   tool_call failed_result_message = None \<and>
   tool_result failed_result_message = Some failed_result \<and>
   tr_call_id failed_result = lit ''c1'' \<and>
   parse_messages sample_dumps [failed_result_message] =
     Inr [ChatCompletionToolMessageParam (tool_result_content failed_result) (lit ''c1'')]"
proof -
  have t: "r_tool_calls tool_response = Some [sample_call]"
    by (simp add: tool_response_def)
  have m: "tool_call failed_result_message = None \<and>
           tool_result failed_result_message = Some failed_result \<and>
           tr_call_id failed_result = call_id sample_call"
    by (simp add: failed_result_message_def failed_result_def sample_call_def)
  from call_id_round_trip [OF chat_tool_True t]
  have "\<forall>tc\<in>set [sample_call]. \<forall>m tr.
        tool_call m = None \<and> tool_result m = Some tr \<and> tr_call_id tr = call_id tc \<longrightarrow>
        parse_messages sample_dumps [m] =
          Inr [ChatCompletionToolMessageParam (tool_result_content tr) (call_id tc)]"
    by blast
  with m have "parse_messages sample_dumps [failed_result_message] =
          Inr [ChatCompletionToolMessageParam (tool_result_content failed_result)
                 (call_id sample_call)]"
    by simp
  then show ?thesis
    using t m by (simp add: chat_tool_True) (simp add: sample_call_def sample_call_param_def)
qed

section \<open>The response built from the reply\<close>

lemma tool_calls_loop_undecodable:
  "\<exists>tc\<in>set tcs. f_arguments (mtc_function tc) \<noteq> [] \<and>
                  loads (f_arguments (mtc_function tc)) = None \<Longrightarrow>
   tool_calls_loop loads acc tcs = Inl JSONDecodeError"
proof (induction tcs arbitrary: acc)
  case Nil
  then show ?case by simp
next
  case (Cons tc tcs)
  show ?case
  proof (cases "f_arguments (mtc_function tc) \<noteq> [] \<and>
                loads (f_arguments (mtc_function tc)) = None")
    case True
    then show ?thesis by simp
  next
    case False
    with Cons.prems have rest: "\<exists>tc\<in>set tcs. f_arguments (mtc_function tc) \<noteq> [] \<and>
                  loads (f_arguments (mtc_function tc)) = None"
      by auto
    from False have "\<exists>args.
      (if f_arguments (mtc_function tc) \<noteq> []
       then loads (f_arguments (mtc_function tc)) else Some (JObj [])) = Some args"
      by (cases "loads (f_arguments (mtc_function tc))") auto
    then obtain args where
      "(if f_arguments (mtc_function tc) \<noteq> []
        then loads (f_arguments (mtc_function tc)) else Some (JObj [])) = Some args"
      by blast
    then show ?thesis using Cons.IH [OF rest] by simp
  qed
qed

lemma build_llm_response_no_choice:
  "choices c = [] \<Longrightarrow> build_llm_response loads c = Inl IndexError"
  by (simp add: build_llm_response_def)

lemma build_llm_response_undecodable:
  assumes "choices c = ch # rest" and "\<not> decodable loads ch"
  shows "build_llm_response loads c = Inl JSONDecodeError"
proof -
  from assms(2) obtain ptcs where p: "m_tool_calls (message ch) = Some ptcs"
    and bad: "\<exists>tc\<in>set ptcs. f_arguments (mtc_function tc) \<noteq> [] \<and>
                  loads (f_arguments (mtc_function tc)) = None"
    by (auto simp: decodable_def list_all_iff split: option.splits)
  from bad have ne: "ptcs \<noteq> []" by auto
  from tool_calls_loop_undecodable [OF bad]
  have "tool_calls_loop loads [] ptcs = Inl JSONDecodeError" .
  with assms(1) p ne show ?thesis by (simp add: build_llm_response_def)
qed

lemma build_llm_response_decodable:
  assumes "choices c = ch # rest" and "decodable loads ch"
  shows "\<exists>r. build_llm_response loads c = Inr r"
proof (cases "build_llm_response loads c")
  case (Inr r)
  then show ?thesis by simp
next
  case (Inl e)
  from build_llm_response_Inl [OF Inl] assms(1) obtain ptcs tc where
    "m_tool_calls (message ch) = Some ptcs" "tc \<in> set ptcs"
    "f_arguments (mtc_function tc) \<noteq> []" "loads (f_arguments (mtc_function tc)) = None"
    by auto
  with assms(2) have False
    by (auto simp: decodable_def list_all_iff)
  then show ?thesis ..
qed

text \<open>
  Claim C7, as amended. When the provider answers the last request of a \<open>chat\<close> call
  with a completion that has a first choice whose tool-call arguments decode, \<open>chat\<close>
  builds its response from that choice: the usage is absent exactly when the completion
  has none and otherwise holds the prompt and completion token counts, a missing count
  being zero; the content is empty when the choice has none; finish reason and model
  are those of the completion. For a completion without choices the call raises
  \<open>IndexError\<close>, and for tool-call arguments that do not decode it raises the error of
  \<open>json.loads\<close>; no response is built then.
\<close>

theorem response_fields:
  assumes "parse_messages dumps messages = Inr pm"
      and "chat dumps loads create self messages mp tools reuse = (res, s')"
      and "create (length (sent s') - 1) (last (sent s')) = Inr c"
  shows "(choices c = [] \<longrightarrow> res = Inl IndexError) \<and>
     (\<forall>ch rest. choices c = ch # rest \<and> \<not> decodable loads ch \<longrightarrow>
        res = Inl JSONDecodeError) \<and>
     (\<forall>ch rest. choices c = ch # rest \<and> decodable loads ch \<longrightarrow>
        (\<exists>r. res = Inr r \<and>
            r_content r = (case m_content (message ch) of None \<Rightarrow> [] | Some t \<Rightarrow> t) \<and>
            r_finish_reason r = finish_reason ch \<and>
            r_model r = c_model c \<and>
            r_usage r =
              (case usage c of
                 None \<Rightarrow> None
               | Some u \<Rightarrow>
                   Some \<lparr> input_tokens = (case prompt_tokens u of None \<Rightarrow> 0 | Some n \<Rightarrow> n),
                          output_tokens = (case completion_tokens u of None \<Rightarrow> 0 | Some n \<Rightarrow> n) \<rparr>)))"
proof -
  from chat_valid_sent [OF assms(1), where mp=mp and tools=tools and self=self and reuse=reuse
      and create=create and loads=loads]
  obtain k req where k: "1 \<le> k"
    and snt: "sent (snd (chat dumps loads create self messages mp tools reuse)) =
                sent self @ replicate k req"
    and fst_eq: "fst (chat dumps loads create self messages mp tools reuse) =
       (case create (length (sent self) + k - 1) req of
          Inl x \<Rightarrow> Inl (APIError x)
        | Inr c \<Rightarrow> build_llm_response loads c)"
    by blast
  from snt assms(2) have s': "sent s' = sent self @ replicate k req" by simp
  from k have lst: "last (sent s') = req" unfolding s' by (cases k) simp_all
  from k have idx: "length (sent s') - 1 = length (sent self) + k - 1" unfolding s' by simp
  from assms(3) have "create (length (sent self) + k - 1) req = Inr c"
    unfolding lst idx .
  with fst_eq assms(2) have res: "res = build_llm_response loads c" by simp
  have none: "choices c = [] \<longrightarrow> res = Inl IndexError"
    using res by (simp add: build_llm_response_no_choice)
  have undec: "\<forall>ch rest. choices c = ch # rest \<and> \<not> decodable loads ch \<longrightarrow>
        res = Inl JSONDecodeError"
    using res by (auto simp: build_llm_response_undecodable)
  have dec: "\<forall>ch rest. choices c = ch # rest \<and> decodable loads ch \<longrightarrow>
        (\<exists>r. res = Inr r \<and>
            r_content r = (case m_content (message ch) of None \<Rightarrow> [] | Some t \<Rightarrow> t) \<and>
            r_finish_reason r = finish_reason ch \<and>
            r_model r = c_model c \<and>
            r_usage r =
              (case usage c of
                 None \<Rightarrow> None
               | Some u \<Rightarrow>
                   Some \<lparr> input_tokens = (case prompt_tokens u of None \<Rightarrow> 0 | Some n \<Rightarrow> n),
                          output_tokens = (case completion_tokens u of None \<Rightarrow> 0 | Some n \<Rightarrow> n) \<rparr>))"
  proof (intro allI impI)
    fix ch rest assume a: "choices c = ch # rest \<and> decodable loads ch"
    then obtain r where r: "build_llm_response loads c = Inr r"
      using build_llm_response_decodable [of c ch rest loads] by blast
    from build_llm_response_Inr [OF r] a res r
    show "\<exists>r. res = Inr r \<and>
            r_content r = (case m_content (message ch) of None \<Rightarrow> [] | Some t \<Rightarrow> t) \<and>
            r_finish_reason r = finish_reason ch \<and>
            r_model r = c_model c \<and>
            r_usage r =
              (case usage c of
                 None \<Rightarrow> None
               | Some u \<Rightarrow>
                   Some \<lparr> input_tokens = (case prompt_tokens u of None \<Rightarrow> 0 | Some n \<Rightarrow> n),
                          output_tokens = (case completion_tokens u of None \<Rightarrow> 0 | Some n \<Rightarrow> n) \<rparr>)"
      by auto
  qed
  show ?thesis using none undec dec by blast
qed

lemma chat_badjson_True:
  "chat sample_dumps sample_loads provider_badjson sample_client [user_hello]
     sample_parameters None True =
   (Inl JSONDecodeError,
    sample_client
      \<lparr>message_history :=
         [ChatCompletionSystemMessageParam (lit ''brief''),
          ChatCompletionUserMessageParam (lit ''hello'')],
       sent := [hello_request [ChatCompletionSystemMessageParam (lit ''brief''),
                               ChatCompletionUserMessageParam (lit ''hello'')]]\<rparr>)"
  by (simp add: chat_defs sample_defs provider_badjson_def badjson_reply_def
        lit_simps numeral_2_eq_2)

theorem response_fields_witness:
  "parse_messages sample_dumps [user_hello] =
     Inr [ChatCompletionUserMessageParam (lit ''hello'')] \<and>
   provider_text 0 (hello_request [ChatCompletionSystemMessageParam (lit ''brief''),
                                   ChatCompletionUserMessageParam (lit ''hello'')]) =
     Inr text_reply \<and>
   decodable sample_loads (hd (choices text_reply)) \<and>
   fst (chat sample_dumps sample_loads provider_text sample_client [user_hello]
          sample_parameters None True) = Inr text_response \<and>
   r_content text_response = lit ''hi'' \<and>
   r_finish_reason text_response = lit ''stop'' \<and>
   r_model text_response = c_model text_reply \<and>
   usage text_reply = Some \<lparr> prompt_tokens = Some 3, completion_tokens = None \<rparr> \<and>
   r_usage text_response = Some \<lparr> input_tokens = 3, output_tokens = 0 \<rparr> \<and>
   \<not> decodable sample_loads (hd (choices badjson_reply)) \<and>
   fst (chat sample_dumps sample_loads provider_badjson sample_client [user_hello]
          sample_parameters None True) = Inl JSONDecodeError \<and>
   fst (chat sample_dumps sample_loads provider_nochoice sample_client [user_hello]
          sample_parameters None True) = Inl IndexError"
proof -
  have c1: "provider_text n q = Inr text_reply" for n q
    by (simp add: provider_text_def)
  have c2: "provider_badjson n q = Inr badjson_reply" for n q
    by (simp add: provider_badjson_def)
  have c3: "provider_nochoice n q =
              Inr \<lparr> choices = [], c_model = lit ''gpt-1'', usage = None \<rparr>" for n q
    by (simp add: provider_nochoice_def)
  have d1: "decodable sample_loads (hd (choices text_reply))"
    by (simp add: decodable_def text_reply_def)
  have d2: "\<not> decodable sample_loads (hd (choices badjson_reply))"
    by (simp add: decodable_def badjson_reply_def sample_loads_def lit_simps)
  have ch1: "choices text_reply = hd (choices text_reply) # []"
    by (simp add: text_reply_def)
  have ch2: "choices badjson_reply = hd (choices badjson_reply) # []"
    by (simp add: badjson_reply_def)
  from response_fields [OF parse_hello chat_text_True c1] ch1 d1
  obtain r where "Inr text_response = Inr r" "r_model r = c_model text_reply"
    by blast
  then have m: "r_model text_response = c_model text_reply" by simp
  from response_fields [where loads=sample_loads and create=provider_badjson
         and self=sample_client and mp=sample_parameters and tools=None and reuse=True,
         OF parse_hello prod.collapse [symmetric] c2] ch2 d2
  have e2: "fst (chat sample_dumps sample_loads provider_badjson sample_client [user_hello]
                   sample_parameters None True) = Inl JSONDecodeError"
    by blast
  from response_fields [where loads=sample_loads and create=provider_nochoice
         and self=sample_client and mp=sample_parameters and tools=None and reuse=True,
         OF parse_hello prod.collapse [symmetric] c3]
  have e3: "fst (chat sample_dumps sample_loads provider_nochoice sample_client [user_hello]
                   sample_parameters None True) = Inl IndexError"
    by simp
  show ?thesis
    using parse_hello d1 d2 m e2 e3
    by (simp add: chat_text_True provider_text_def)
       (simp add: text_response_def text_reply_def)
qed

text \<open>
  The provider answers with a completion, yet no response is built: the argument
  string of its tool call does not decode and \<open>chat\<close> raises.
\<close>

theorem response_not_built:
  "provider_badjson 0 (hello_request [ChatCompletionSystemMessageParam (lit ''brief''),
                                      ChatCompletionUserMessageParam (lit ''hello'')]) =
     Inr badjson_reply \<and>
   sent (snd (chat sample_dumps sample_loads provider_badjson sample_client [user_hello]
                sample_parameters None True)) =
     [hello_request [ChatCompletionSystemMessageParam (lit ''brief''),
                     ChatCompletionUserMessageParam (lit ''hello'')]] \<and>
   fst (chat sample_dumps sample_loads provider_badjson sample_client [user_hello]
          sample_parameters None True) = Inl JSONDecodeError"
  by (simp add: chat_badjson_True provider_badjson_def)


section \<open>Bounded retries\<close>

text \<open>
  Claim C8. A \<open>chat\<close> call with valid messages sends the same request at least once and
  at most \<open>max_retries + 1\<close> times. Every request but the last one has failed; when the
  last one fails too, all \<open>max_retries + 1\<close> attempts were made and its failure is what
  the caller gets; when it succeeds, the response is built from its answer.
\<close>

theorem bounded_retries:
  assumes "parse_messages dumps messages = Inr pm"
  shows "\<exists>k req. 1 \<le> k \<and> k \<le> max_retries mp + 1 \<and>
     sent (snd (chat dumps loads create self messages mp tools reuse)) =
       sent self @ replicate k req \<and>
     (\<forall>j<k - 1. isl (create (length (sent self) + j) req)) \<and>
     (\<forall>x. create (length (sent self) + k - 1) req = Inl x \<longrightarrow>
          k = max_retries mp + 1 \<and>
          fst (chat dumps loads create self messages mp tools reuse) = Inl (APIError x)) \<and>
     (\<forall>c. create (length (sent self) + k - 1) req = Inr c \<longrightarrow>
          fst (chat dumps loads create self messages mp tools reuse) =
            build_llm_response loads c)"
proof -
  from chat_valid_sent [OF assms, where mp=mp and tools=tools and self=self and reuse=reuse
      and create=create and loads=loads]
  obtain k req where k: "1 \<le> k" "k \<le> Suc (max_retries mp)"
    and snt: "sent (snd (chat dumps loads create self messages mp tools reuse)) =
                sent self @ replicate k req"
    and failed: "\<forall>j<k - 1. isl (create (length (sent self) + j) req)"
    and final: "isl (create (length (sent self) + k - 1) req) \<longrightarrow> k = Suc (max_retries mp)"
    and fst_eq: "fst (chat dumps loads create self messages mp tools reuse) =
       (case create (length (sent self) + k - 1) req of
          Inl x \<Rightarrow> Inl (APIError x)
        | Inr c \<Rightarrow> build_llm_response loads c)"
    by blast
  have bound: "k \<le> max_retries mp + 1" using k by simp
  have exhausted: "\<forall>x. create (length (sent self) + k - 1) req = Inl x \<longrightarrow>
          k = max_retries mp + 1 \<and>
          fst (chat dumps loads create self messages mp tools reuse) = Inl (APIError x)"
    using final fst_eq by simp
  have answered: "\<forall>c. create (length (sent self) + k - 1) req = Inr c \<longrightarrow>
          fst (chat dumps loads create self messages mp tools reuse) =
            build_llm_response loads c"
    using fst_eq by simp
  show ?thesis
    using k(1) bound snt failed exhausted answered by blast
qed

theorem bounded_retries_witness:
  "parse_messages sample_dumps [user_hello] =
     Inr [ChatCompletionUserMessageParam (lit ''hello'')] \<and>
   max_retries sample_parameters = 2 \<and>
   length (sent (snd (chat sample_dumps sample_loads provider_down sample_client [user_hello]
                        sample_parameters None False))) = 3 \<and>
   fst (chat sample_dumps sample_loads provider_down sample_client [user_hello]
          sample_parameters None False) = Inl (APIError (lit ''down'' @ [50])) \<and>
   length (sent (snd (chat sample_dumps sample_loads provider_flaky sample_client [user_hello]
                        sample_parameters None False))) = 3 \<and>
   fst (chat sample_dumps sample_loads provider_flaky sample_client [user_hello]
          sample_parameters None False) = Inr text_response \<and>
   length (sent (snd (chat sample_dumps sample_loads provider_text sample_client [user_hello]
                        sample_parameters None True))) = 1"
proof -
  have n: "max_retries sample_parameters = 2" "sent sample_client = []"
    by (simp_all add: sample_parameters_def sample_client_def)
  from bounded_retries [OF parse_hello, of sample_parameters sample_loads provider_down
         sample_client None False]
  obtain k req where
    snt: "sent (snd (chat sample_dumps sample_loads provider_down sample_client [user_hello]
                       sample_parameters None False)) = sent sample_client @ replicate k req"
    and ex: "\<forall>x. provider_down (length (sent sample_client) + k - 1) req = Inl x \<longrightarrow>
          k = max_retries sample_parameters + 1 \<and>
          fst (chat sample_dumps sample_loads provider_down sample_client [user_hello]
                 sample_parameters None False) = Inl (APIError x)"
    by blast
  from ex have k: "k = 3"
    and f: "fst (chat sample_dumps sample_loads provider_down sample_client [user_hello]
                 sample_parameters None False) =
              Inl (APIError (lit ''down'' @ [48 + (length (sent sample_client) + k - 1)]))"
    by (simp_all add: provider_down_def n)
  from snt k n have
    "length (sent (snd (chat sample_dumps sample_loads provider_down sample_client [user_hello]
                        sample_parameters None False))) = 3"
    by simp
  moreover from f k n have
    "fst (chat sample_dumps sample_loads provider_down sample_client [user_hello]
          sample_parameters None False) = Inl (APIError (lit ''down'' @ [50]))"
    by simp
  ultimately show ?thesis
    using parse_hello n by (simp add: chat_flaky_False chat_text_True)
qed

section \<open>The constructor\<close>

text \<open>
  Claim C9, as amended. Constructing a client from a configuration without base URL
  (absent or the empty string) fails with the configuration error before the SDK's
  constructor is called; no client exists then, so nothing is sent or retried. With a
  base URL the construction succeeds exactly when the SDK's constructor accepts the
  endpoint, API version and API key; the client then holds the connection fields, an
  empty history and no request sent. When the SDK's constructor raises, the
  construction fails with that error.
\<close>

theorem init_requires_base_url:
  "((mp_base_url mp = None \<or> mp_base_url mp = Some []) \<longrightarrow>
      init azure_openai mp = Inl (ValueError (lit ''base_url is required for AzureClient''))) \<and>
   (\<forall>u e. mp_base_url mp = Some u \<and> u \<noteq> [] \<and>
      azure_openai u (mp_api_version mp) (mp_api_key mp) = Inl e \<longrightarrow>
      init azure_openai mp = Inl e) \<and>
   (\<forall>u c. mp_base_url mp = Some u \<and> u \<noteq> [] \<and>
      azure_openai u (mp_api_version mp) (mp_api_key mp) = Inr c \<longrightarrow>
      init azure_openai mp =
        Inr \<lparr> api_key = mp_api_key mp, base_url = Some u, api_version = mp_api_version mp,
              client = c, message_history = [], trajectory_recorder = None, sent = [] \<rparr>)"
  by (auto simp: init_def)

theorem init_requires_base_url_witness:
  "mp_base_url (sample_parameters\<lparr>mp_base_url := None\<rparr>) = None \<and>
   init sdk_lenient (sample_parameters\<lparr>mp_base_url := None\<rparr>) =
     Inl (ValueError (lit ''base_url is required for AzureClient'')) \<and>
   init sdk_lenient (sample_parameters\<lparr>mp_base_url := Some []\<rparr>) =
     Inl (ValueError (lit ''base_url is required for AzureClient'')) \<and>
   mp_base_url sample_parameters = Some (lit ''https://x'') \<and> lit ''https://x'' \<noteq> [] \<and>
   sdk_lenient (lit ''https://x'') (mp_api_version sample_parameters)
       (mp_api_key sample_parameters) = Inr (client sample_client) \<and>
   init sdk_lenient sample_parameters = Inr (sample_client\<lparr>message_history := []\<rparr>) \<and>
   sdk_strict (lit ''https://x'') (mp_api_version sample_parameters)
       (mp_api_key sample_parameters) =
     Inl (ValueError (lit ''Must provide the api_version argument'')) \<and>
   init sdk_strict sample_parameters =
     Inl (ValueError (lit ''Must provide the api_version argument''))"
proof -
  from init_requires_base_url [of "sample_parameters\<lparr>mp_base_url := None\<rparr>" sdk_lenient]
  have 1: "init sdk_lenient (sample_parameters\<lparr>mp_base_url := None\<rparr>) =
             Inl (ValueError (lit ''base_url is required for AzureClient''))"
    by simp
  from init_requires_base_url [of "sample_parameters\<lparr>mp_base_url := Some []\<rparr>" sdk_lenient]
  have 2: "init sdk_lenient (sample_parameters\<lparr>mp_base_url := Some []\<rparr>) =
             Inl (ValueError (lit ''base_url is required for AzureClient''))"
    by simp
  have u: "mp_base_url sample_parameters = Some (lit ''https://x'')" "lit ''https://x'' \<noteq> []"
    by (simp_all add: sample_parameters_def lit_simps)
  have l: "sdk_lenient (lit ''https://x'') (mp_api_version sample_parameters)
             (mp_api_key sample_parameters) = Inr (client sample_client)"
    by (simp add: sdk_lenient_def sample_parameters_def sample_client_def)
  have s: "sdk_strict (lit ''https://x'') (mp_api_version sample_parameters)
             (mp_api_key sample_parameters) =
           Inl (ValueError (lit ''Must provide the api_version argument''))"
    by (simp add: sdk_strict_def sample_parameters_def)
  from init_requires_base_url [of sample_parameters sdk_lenient] u l
  have "init sdk_lenient sample_parameters =
        Inr \<lparr> api_key = mp_api_key sample_parameters, base_url = Some (lit ''https://x''),
              api_version = mp_api_version sample_parameters,
              client = client sample_client, message_history = [],
              trajectory_recorder = None, sent = [] \<rparr>"
    by blast
  then have 3: "init sdk_lenient sample_parameters = Inr (sample_client\<lparr>message_history := []\<rparr>)"
    by (simp add: sample_parameters_def sample_client_def)
  from init_requires_base_url [of sample_parameters sdk_strict] u s
  have 4: "init sdk_strict sample_parameters =
             Inl (ValueError (lit ''Must provide the api_version argument''))"
    by blast
  show ?thesis using 1 2 3 4 u l s by simp
qed

text \<open>
  A base URL is present, yet the construction fails: the configuration has no API
  version and the SDK's constructor, finding none in its environment either, raises.
\<close>

theorem init_fails_with_base_url:
  "mp_base_url sample_parameters = Some (lit ''https://x'') \<and>
   truthy (mp_base_url sample_parameters) \<and>
   init sdk_strict sample_parameters =
     Inl (ValueError (lit ''Must provide the api_version argument''))"
  by (simp add: init_def sdk_strict_def sample_parameters_def lit_simps)


end
